theory Spec2Isabelle
  imports Main "HOL-Library.Sublist"
begin

section \<open>Python values and strings\<close>

text \<open>
  The dashboard (\<^verbatim>\<open>app.py\<close>) keeps its query catalog in the dictionary \<^verbatim>\<open>CONFIG\<close>,
  binds operator parameters into the selected query, runs it on Postgres or MongoDB and
  renders the result. Python values that occur in the catalog, in the parameter context
  and in result rows are modelled by \<open>pyval\<close>. Strings are byte strings (UTF-8); a
  dictionary is an association list in insertion order.
\<close>

datatype datetime = Datetime int int int int int int int

datatype timedelta = Hours nat | Days nat

datatype pyval =
    PNone
  | PBool bool
  | PInt int
  | PStr string
  | PList "pyval list"
  | PDict "(string \<times> pyval) list"
  | PDatetime datetime

text \<open>
  A raised exception: \<^verbatim>\<open>KeyError\<close> with its key, or any other exception with its class
  name and message.
\<close>

datatype error = KeyError string | Exception string string

type_synonym 'v pydict = "(string \<times> 'v) list"

text \<open>Sequencing of steps that may raise: the first exception ends the computation.\<close>

definition and_then :: "error + 'a \<Rightarrow> ('a \<Rightarrow> error + 'b) \<Rightarrow> error + 'b" where
  "and_then m f = (case m of Inl e \<Rightarrow> Inl e | Inr x \<Rightarrow> f x)"

text \<open>\<^verbatim>\<open>d[k]\<close>: the value at a key, or \<^verbatim>\<open>KeyError\<close>.\<close>

definition dict_index :: "'v pydict \<Rightarrow> string \<Rightarrow> error + 'v" where
  "dict_index d k = (case map_of d k of None \<Rightarrow> Inl (KeyError k) | Some v \<Rightarrow> Inr v)"

text \<open>\<^verbatim>\<open>d[k] = v\<close>: an existing key keeps its position, a new key goes last.\<close>

fun dict_set :: "'v pydict \<Rightarrow> string \<Rightarrow> 'v \<Rightarrow> 'v pydict" where
  "dict_set [] k v = [(k, v)]"
| "dict_set ((k', v') # d) k v = (if k' = k then (k, v) # d else (k', v') # dict_set d k v)"

text \<open>
  \<^verbatim>\<open>s.replace(old, new)\<close>: every occurrence of \<open>old\<close>, found left to right without
  overlap, is replaced by \<open>new\<close>; an empty \<open>old\<close> matches before every character and at
  the end.
\<close>

function str_replace :: "string \<Rightarrow> string \<Rightarrow> string \<Rightarrow> string" where
  "str_replace s old new =
     (if old = [] then new @ concat (map (\<lambda>c. c # new) s)
      else if s = [] then []
      else if prefix old s then new @ str_replace (drop (length old) s) old new
      else hd s # str_replace (tl s) old new)"
  by pat_completeness auto
termination
  by (relation "measure (\<lambda>(s, old, new). length s)") auto

declare str_replace.simps [simp del]

text \<open>\<^verbatim>\<open>s.lower()\<close> on ASCII text: the letters A to Z move to a to z.\<close>

fun lower_char :: "char \<Rightarrow> char" where
  "lower_char (Char b0 b1 b2 b3 b4 b5 b6 b7) =
     (let n = (of_char (Char b0 b1 b2 b3 b4 b5 b6 b7) :: nat)
      in if 65 \<le> n \<and> n \<le> 90 then Char b0 b1 b2 b3 b4 True b6 b7
         else Char b0 b1 b2 b3 b4 b5 b6 b7)"

definition lower :: "string \<Rightarrow> string" where
  "lower s = map lower_char s"

text \<open>The bytes of a non-ASCII catalog name.\<close>

definition utf8 :: "nat list \<Rightarrow> string" where
  "utf8 bs = map char_of bs"

subsection \<open>\<^verbatim>\<open>str\<close> and \<^verbatim>\<open>repr\<close>\<close>

definition digit_char :: "nat \<Rightarrow> char" where
  "digit_char n = ''0123456789'' ! (n mod 10)"

function digits_of :: "nat \<Rightarrow> string" where
  "digits_of n = (if n < 10 then [digit_char n] else digits_of (n div 10) @ [digit_char n])"
  by pat_completeness auto
termination
  by (relation "measure id") auto

declare digits_of.simps [simp del]

definition show_int :: "int \<Rightarrow> string" where
  "show_int i = (if i < 0 then CHR ''-'' # digits_of (nat (- i)) else digits_of (nat i))"

definition hex_char :: "nat \<Rightarrow> char" where
  "hex_char n = ''0123456789abcdef'' ! (n mod 16)"

text \<open>
  \<^verbatim>\<open>repr\<close> of a string: single quotes, unless the text holds a single quote and no double
  quote; backslash, the quote in use and control characters are escaped.
\<close>

definition escape_char :: "char \<Rightarrow> char \<Rightarrow> string" where
  "escape_char quote c =
     (let n = (of_char c :: nat)
      in if c = CHR 0x5C then [CHR 0x5C, CHR 0x5C]
         else if c = quote then [CHR 0x5C, quote]
         else if n = 10 then [CHR 0x5C, CHR ''n'']
         else if n = 13 then [CHR 0x5C, CHR ''r'']
         else if n = 9 then [CHR 0x5C, CHR ''t'']
         else if n < 32 \<or> n = 127 then [CHR 0x5C, CHR ''x'', hex_char (n div 16), hex_char n]
         else [c])"

definition repr_str :: "string \<Rightarrow> string" where
  "repr_str s =
     (let quote = (if CHR 0x27 \<in> set s \<and> CHR 0x22 \<notin> set s then CHR 0x22 else CHR 0x27)
      in quote # concat (map (escape_char quote) s) @ [quote])"

text \<open>\<^verbatim>\<open>repr\<close> of a datetime leaves out a zero microsecond, and then a zero second.\<close>

definition repr_datetime :: "datetime \<Rightarrow> string" where
  "repr_datetime d =
     (case d of Datetime y mo dd h mi s us \<Rightarrow>
        ''datetime.datetime('' @ show_int y @ '', '' @ show_int mo @ '', '' @ show_int dd
          @ '', '' @ show_int h @ '', '' @ show_int mi
          @ (if us \<noteq> 0 then '', '' @ show_int s @ '', '' @ show_int us
             else if s \<noteq> 0 then '', '' @ show_int s else [])
          @ '')'')"

fun py_repr :: "pyval \<Rightarrow> string"
  and repr_elems :: "pyval list \<Rightarrow> string"
  and repr_items :: "(string \<times> pyval) list \<Rightarrow> string" where
  "py_repr PNone = ''None''"
| "py_repr (PBool b) = (if b then ''True'' else ''False'')"
| "py_repr (PInt i) = show_int i"
| "py_repr (PStr s) = repr_str s"
| "py_repr (PList xs) = ''['' @ repr_elems xs @ '']''"
| "py_repr (PDict kvs) = ''{'' @ repr_items kvs @ ''}''"
| "py_repr (PDatetime d) = repr_datetime d"
| "repr_elems [] = []"
| "repr_elems (x # xs) = py_repr x @ (if xs = [] then [] else '', '' @ repr_elems xs)"
| "repr_items [] = []"
| "repr_items (kv # kvs) =
     repr_str (fst kv) @ '': '' @ py_repr (snd kv)
       @ (if kvs = [] then [] else '', '' @ repr_items kvs)"

definition pad_left :: "nat \<Rightarrow> string \<Rightarrow> string" where
  "pad_left w s = replicate (w - length s) (CHR ''0'') @ s"

text \<open>\<^verbatim>\<open>str\<close> of a datetime: ISO format with a space, microseconds when not zero.\<close>

definition str_datetime :: "datetime \<Rightarrow> string" where
  "str_datetime d =
     (case d of Datetime y mo dd h mi s us \<Rightarrow>
        pad_left 4 (show_int y) @ ''-'' @ pad_left 2 (show_int mo) @ ''-'' @ pad_left 2 (show_int dd)
          @ '' '' @ pad_left 2 (show_int h) @ '':'' @ pad_left 2 (show_int mi)
          @ '':'' @ pad_left 2 (show_int s)
          @ (if us \<noteq> 0 then ''.'' @ pad_left 6 (show_int us) else []))"

text \<open>\<^verbatim>\<open>str(v)\<close>: a string is its own text, every other value prints as its \<^verbatim>\<open>repr\<close>.\<close>

definition py_str :: "pyval \<Rightarrow> string" where
  "py_str v = (case v of PStr s \<Rightarrow> s | PDatetime d \<Rightarrow> str_datetime d | _ \<Rightarrow> py_repr v)"

section \<open>The query catalog\<close>

text \<open>
  An entry of \<^verbatim>\<open>CONFIG[...]["queries"]\<close>. Every entry has a \<^verbatim>\<open>chart\<close>; \<^verbatim>\<open>tags\<close> and
  \<^verbatim>\<open>params\<close> are read with \<^verbatim>\<open>q.get\<close> and may be absent. A Postgres entry adds its
  statement template, a Mongo entry its collection and pipeline.
\<close>

record query =
  chart :: "pyval pydict"
  tags :: "string list option"

record pg_query = query +
  sql :: string
  params :: "string list option"

record mongo_query = query +
  collection :: string
  aggregate :: "pyval list"

subsection \<open>\<^verbatim>\<open>CONFIG["postgres"]["queries"]\<close>\<close>

definition pg_patient_overview :: pg_query where
  "pg_patient_overview =
     \<lparr>chart = [(''type'', PStr ''table'')],
      tags = Some [''patient''],
      sql = ''\<newline>                    SELECT hr.timestamp, hr.heartrate, hr.bloodpressure, \<newline>                           hr.spo2, hr.stepcount, wd.devicetype\<newline>                    FROM {S}.healthrecord hr\<newline>                    JOIN {S}.wearabledevice wd ON hr.deviceid = wd.deviceid\<newline>                    WHERE wd.assignedpatientid = :patient_id\<newline>                    ORDER BY hr.timestamp DESC\<newline>                    LIMIT 20;\<newline>                '',
      params = Some [''patient_id'']\<rparr>"

definition pg_patient_alerts :: pg_query where
  "pg_patient_alerts =
     \<lparr>chart = [(''type'', PStr ''table'')],
      tags = Some [''patient''],
      sql = ''\<newline>                    SELECT a.alerttype, a.timestamp, a.alertstatus, \<newline>                           a.location, c.name AS caregiver_name\<newline>                    FROM {S}.alert a\<newline>                    JOIN {S}.healthrecord hr ON a.recordid = hr.recordid\<newline>                    JOIN {S}.wearabledevice wd ON hr.deviceid = wd.deviceid\<newline>                    LEFT JOIN {S}.caregiver c ON a.recipientcaregiverid = c.caregiverid\<newline>                    WHERE wd.assignedpatientid = :patient_id\<newline>                    ORDER BY a.timestamp DESC;\<newline>                '',
      params = Some [''patient_id'']\<rparr>"

definition pg_patient_battery :: pg_query where
  "pg_patient_battery =
     \<lparr>chart = [(''type'', PStr ''pie''), (''names'', PStr ''battery_range''), (''values'', PStr ''device_count'')],
      tags = Some [''patient''],
      sql = ''\<newline>                    SELECT \<newline>                        CASE \<newline>                            WHEN batterylevel >= 80 THEN '80-100%'\<newline>                            WHEN batterylevel >= 60 THEN '60-79%'\<newline>                            WHEN batterylevel >= 40 THEN '40-59%'\<newline>                            WHEN batterylevel >= 20 THEN '20-39%'\<newline>                            ELSE '<20%'\<newline>                        END AS battery_range,\<newline>                        COUNT(*) AS device_count\<newline>                    FROM {S}.wearabledevice\<newline>                    WHERE assignedpatientid = :patient_id AND isactive = true\<newline>                    GROUP BY battery_range\<newline>                    ORDER BY battery_range;\<newline>                '',
      params = Some [''patient_id'']\<rparr>"

definition pg_caregiver_alerts :: pg_query where
  "pg_caregiver_alerts =
     \<lparr>chart = [(''type'', PStr ''table'')],
      tags = Some [''caregiver''],
      sql = ''\<newline>                    SELECT p.name AS patient_name, a.alerttype, a.timestamp, \<newline>                           a.location, a.alertstatus\<newline>                    FROM {S}.alert a\<newline>                    JOIN {S}.healthrecord hr ON a.recordid = hr.recordid\<newline>                    JOIN {S}.wearabledevice wd ON hr.deviceid = wd.deviceid\<newline>                    JOIN {S}.patient p ON wd.assignedpatientid = p.patientid\<newline>                    WHERE a.recipientcaregiverid = :caregiver_id\<newline>                      AND a.alertstatus = 'Unread'\<newline>                    ORDER BY a.timestamp DESC;\<newline>                '',
      params = Some [''caregiver_id'']\<rparr>"

definition pg_caregiver_activity :: pg_query where
  "pg_caregiver_activity =
     \<lparr>chart = [(''type'', PStr ''bar''), (''x'', PStr ''patient_name''), (''y'', PStr ''avg_steps'')],
      tags = Some [''caregiver''],
      sql = ''\<newline>                    SELECT p.name AS patient_name, \<newline>                           AVG(hr.stepcount)::numeric(10,1) AS avg_steps\<newline>                    FROM {S}.patient p\<newline>                    JOIN {S}.patientcaregiverjunction pcj ON p.patientid = pcj.patientid\<newline>                    JOIN {S}.wearabledevice wd ON p.patientid = wd.assignedpatientid\<newline>                    JOIN {S}.healthrecord hr ON wd.deviceid = hr.deviceid\<newline>                    WHERE pcj.caregiverid = :caregiver_id\<newline>                      AND hr.timestamp >= CURRENT_DATE - INTERVAL '7 days'\<newline>                    GROUP BY p.name\<newline>                    ORDER BY avg_steps DESC;\<newline>                '',
      params = Some [''caregiver_id'']\<rparr>"

definition pg_caregiver_today :: pg_query where
  "pg_caregiver_today =
     \<lparr>chart = [(''type'', PStr ''table'')],
      tags = Some [''caregiver''],
      sql = ''\<newline>                    SELECT COUNT(*) AS total_alerts,\<newline>                           COUNT(CASE WHEN alertstatus = 'Responded' THEN 1 END) AS responded_alerts,\<newline>                           COUNT(CASE WHEN alertstatus = 'Unread' THEN 1 END) AS unread_alerts\<newline>                    FROM {S}.alert a\<newline>                    WHERE a.recipientcaregiverid = :caregiver_id\<newline>                      AND a.timestamp::date = CURRENT_DATE;\<newline>                '',
      params = Some [''caregiver_id'']\<rparr>"

definition pg_staff_abnormal :: pg_query where
  "pg_staff_abnormal =
     \<lparr>chart = [(''type'', PStr ''table'')],
      tags = Some [''medical_staff''],
      sql = ''\<newline>                    SELECT p.name AS patient_name, hr.heartrate, hr.bloodpressure, \<newline>                           hr.spo2, hr.timestamp, ht.metrictype, ht.minvalue, ht.maxvalue\<newline>                    FROM {S}.healthrecord hr\<newline>                    JOIN {S}.wearabledevice wd ON hr.deviceid = wd.deviceid\<newline>                    JOIN {S}.patient p ON wd.assignedpatientid = p.patientid\<newline>                    JOIN {S}.healththreshold ht ON p.patientid = ht.patientid\<newline>                    WHERE ht.staffid = :staff_id\<newline>                      AND (\<newline>                        (ht.metrictype = 'HeartRate' AND hr.heartrate NOT BETWEEN ht.minvalue AND ht.maxvalue) OR\<newline>                        (ht.metrictype = 'BloodPressure_Systolic' AND CAST(SPLIT_PART(hr.bloodpressure, '/', 1) AS INTEGER) NOT BETWEEN ht.minvalue AND ht.maxvalue) OR\<newline>                        (ht.metrictype = 'SpO2' AND hr.spo2 NOT BETWEEN ht.minvalue AND ht.maxvalue)\<newline>                      )\<newline>                    ORDER BY hr.timestamp DESC;\<newline>                '',
      params = Some [''staff_id'']\<rparr>"

definition pg_staff_thresholds :: pg_query where
  "pg_staff_thresholds =
     \<lparr>chart = [(''type'', PStr ''table'')],
      tags = Some [''medical_staff''],
      sql = ''\<newline>                    SELECT p.name AS patient_name, ht.metrictype, ht.minvalue, ht.maxvalue\<newline>                    FROM {S}.healththreshold ht\<newline>                    JOIN {S}.patient p ON ht.patientid = p.patientid\<newline>                    WHERE ht.staffid = :staff_id\<newline>                    ORDER BY p.name, ht.metrictype;\<newline>                '',
      params = Some [''staff_id'']\<rparr>"

definition pg_staff_high_risk :: pg_query where
  "pg_staff_high_risk =
     \<lparr>chart = [(''type'', PStr ''bar''), (''x'', PStr ''patient_name''), (''y'', PStr ''alert_count'')],
      tags = Some [''medical_staff''],
      sql = ''\<newline>                    SELECT p.name AS patient_name, COUNT(a.alertid) AS alert_count\<newline>                    FROM {S}.patient p\<newline>                    JOIN {S}.wearabledevice wd ON p.patientid = wd.assignedpatientid\<newline>                    JOIN {S}.healthrecord hr ON wd.deviceid = hr.deviceid\<newline>                    JOIN {S}.alert a ON hr.recordid = a.recordid\<newline>                    WHERE a.timestamp >= CURRENT_DATE - INTERVAL '30 days'\<newline>                    GROUP BY p.name\<newline>                    HAVING COUNT(a.alertid) > :alert_threshold\<newline>                    ORDER BY alert_count DESC;\<newline>                '',
      params = Some [''staff_id'', ''alert_threshold'']\<rparr>"

definition pg_admin_devices :: pg_query where
  "pg_admin_devices =
     \<lparr>chart = [(''type'', PStr ''table'')],
      tags = Some [''admin''],
      sql = ''\<newline>                    SELECT wd.deviceid, wd.devicetype, wd.batterylevel, \<newline>                           wd.isactive, p.name AS patient_name, wd.lastsynctime\<newline>                    FROM {S}.wearabledevice wd\<newline>                    LEFT JOIN {S}.patient p ON wd.assignedpatientid = p.patientid\<newline>                    ORDER BY wd.deviceid;\<newline>                '',
      params = None\<rparr>"

definition pg_admin_battery :: pg_query where
  "pg_admin_battery =
     \<lparr>chart = [(''type'', PStr ''pie''), (''names'', PStr ''battery_range''), (''values'', PStr ''device_count'')],
      tags = Some [''admin''],
      sql = ''\<newline>                    SELECT \<newline>                        CASE \<newline>                            WHEN batterylevel >= 80 THEN '80-100%'\<newline>                            WHEN batterylevel >= 60 THEN '60-79%'\<newline>                            WHEN batterylevel >= 40 THEN '40-59%'\<newline>                            WHEN batterylevel >= 20 THEN '20-39%'\<newline>                            ELSE '<20%'\<newline>                        END AS battery_range,\<newline>                        COUNT(*) AS device_count\<newline>                    FROM {S}.wearabledevice\<newline>                    WHERE isactive = true\<newline>                    GROUP BY battery_range\<newline>                    ORDER BY battery_range;\<newline>                '',
      params = None\<rparr>"

definition pg_admin_alert_types :: pg_query where
  "pg_admin_alert_types =
     \<lparr>chart = [(''type'', PStr ''bar''), (''x'', PStr ''alerttype''), (''y'', PStr ''alert_count'')],
      tags = Some [''admin''],
      sql = ''\<newline>                    SELECT alerttype, COUNT(*) AS alert_count\<newline>                    FROM {S}.alert\<newline>                    WHERE timestamp >= CURRENT_DATE - INTERVAL '7 days'\<newline>                    GROUP BY alerttype\<newline>                    ORDER BY alert_count DESC;\<newline>                '',
      params = None\<rparr>"

definition pg_admin_patients :: pg_query where
  "pg_admin_patients =
     \<lparr>chart = [(''type'', PStr ''table'')],
      tags = Some [''admin''],
      sql = ''\<newline>                    SELECT COUNT(*) AS total_patients, \<newline>                           AVG(age)::numeric(10,1) AS avg_age,\<newline>                           COUNT(CASE WHEN age >= 80 THEN 1 END) AS elderly_patients\<newline>                    FROM {S}.patient;\<newline>                '',
      params = None\<rparr>"

definition pg_admin_workload :: pg_query where
  "pg_admin_workload =
     \<lparr>chart = [(''type'', PStr ''bar''), (''x'', PStr ''caregiver_name''), (''y'', PStr ''patient_count'')],
      tags = Some [''admin''],
      sql = ''\<newline>                    SELECT c.name AS caregiver_name, \<newline>                           COUNT(pcj.patientid) AS patient_count\<newline>                    FROM {S}.caregiver c\<newline>                    LEFT JOIN {S}.patientcaregiverjunction pcj ON c.caregiverid = pcj.caregiverid\<newline>                    GROUP BY c.name\<newline>                    ORDER BY patient_count DESC;\<newline>                '',
      params = None\<rparr>"

definition pg_queries :: "pg_query pydict" where
  "pg_queries =
     [(utf8 [230, 130, 163, 232, 128, 133, 58, 32, 230, 136, 145, 231, 154, 132, 229, 129, 165, 229, 186, 183, 230, 149, 176, 230, 141, 174, 230, 166, 130, 232, 167, 136, 32, 40, 232, 161, 168, 230, 160, 188, 41],
      pg_patient_overview),
      (utf8 [230, 130, 163, 232, 128, 133, 58, 32, 230, 136, 145, 231, 154, 132, 232, 173, 166, 230, 138, 165, 231, 138, 182, 230, 128, 129, 32, 40, 232, 161, 168, 230, 160, 188, 41],
      pg_patient_alerts),
      (utf8 [230, 130, 163, 232, 128, 133, 58, 32, 230, 136, 145, 231, 154, 132, 232, 174, 190, 229, 164, 135, 231, 148, 181, 230, 177, 160, 231, 138, 182, 230, 128, 129, 32, 40, 233, 165, 188, 229, 155, 190, 41],
      pg_patient_battery),
      (utf8 [230, 138, 164, 231, 144, 134, 228, 186, 186, 229, 145, 152, 58, 32, 233, 156, 128, 232, 166, 129, 229, 147, 141, 229, 186, 148, 231, 154, 132, 232, 173, 166, 230, 138, 165, 32, 40, 232, 161, 168, 230, 160, 188, 41],
      pg_caregiver_alerts),
      (utf8 [230, 138, 164, 231, 144, 134, 228, 186, 186, 229, 145, 152, 58, 32, 230, 136, 145, 232, 180, 159, 232, 180, 163, 231, 154, 132, 230, 130, 163, 232, 128, 133, 230, 180, 187, 229, 138, 168, 231, 187, 159, 232, 174, 161, 32, 40, 230, 159, 177, 231, 138, 182, 229, 155, 190, 41],
      pg_caregiver_activity),
      (utf8 [230, 138, 164, 231, 144, 134, 228, 186, 186, 229, 145, 152, 58, 32, 228, 187, 138, 230, 151, 165, 232, 173, 166, 230, 138, 165, 229, 147, 141, 229, 186, 148, 231, 187, 159, 232, 174, 161, 32, 40, 232, 161, 168, 230, 160, 188, 41],
      pg_caregiver_today),
      (utf8 [229, 140, 187, 230, 138, 164, 228, 186, 186, 229, 145, 152, 58, 32, 229, 188, 130, 229, 184, 184, 229, 129, 165, 229, 186, 183, 230, 138, 165, 229, 145, 138, 32, 40, 232, 161, 168, 230, 160, 188, 41],
      pg_staff_abnormal),
      (utf8 [229, 140, 187, 230, 138, 164, 228, 186, 186, 229, 145, 152, 58, 32, 230, 130, 163, 232, 128, 133, 229, 129, 165, 229, 186, 183, 233, 152, 136, 229, 128, 188, 232, 174, 190, 231, 189, 174, 32, 40, 232, 161, 168, 230, 160, 188, 41],
      pg_staff_thresholds),
      (utf8 [229, 140, 187, 230, 138, 164, 228, 186, 186, 229, 145, 152, 58, 32, 233, 171, 152, 233, 163, 142, 233, 153, 169, 230, 130, 163, 232, 128, 133, 231, 187, 159, 232, 174, 161, 32, 40, 230, 159, 177, 231, 138, 182, 229, 155, 190, 41],
      pg_staff_high_risk),
      (utf8 [231, 174, 161, 231, 144, 134, 229, 145, 152, 58, 32, 232, 174, 190, 229, 164, 135, 231, 174, 161, 231, 144, 134, 230, 166, 130, 232, 167, 136, 32, 40, 232, 161, 168, 230, 160, 188, 41],
      pg_admin_devices),
      (utf8 [231, 174, 161, 231, 144, 134, 229, 145, 152, 58, 32, 232, 174, 190, 229, 164, 135, 231, 148, 181, 230, 177, 160, 231, 138, 182, 230, 128, 129, 229, 136, 134, 229, 184, 131, 32, 40, 233, 165, 188, 229, 155, 190, 41],
      pg_admin_battery),
      (utf8 [231, 174, 161, 231, 144, 134, 229, 145, 152, 58, 32, 232, 173, 166, 230, 138, 165, 231, 177, 187, 229, 158, 139, 231, 187, 159, 232, 174, 161, 32, 40, 230, 159, 177, 231, 138, 182, 229, 155, 190, 41],
      pg_admin_alert_types),
      (utf8 [231, 174, 161, 231, 144, 134, 229, 145, 152, 58, 32, 230, 130, 163, 232, 128, 133, 230, 128, 187, 230, 149, 176, 229, 146, 140, 229, 185, 179, 229, 157, 135, 229, 185, 180, 233, 190, 132, 32, 40, 232, 161, 168, 230, 160, 188, 41],
      pg_admin_patients),
      (utf8 [231, 174, 161, 231, 144, 134, 229, 145, 152, 58, 32, 230, 138, 164, 231, 144, 134, 228, 186, 186, 229, 145, 152, 229, 183, 165, 228, 189, 156, 232, 180, 159, 232, 189, 189, 32, 40, 230, 159, 177, 231, 138, 182, 229, 155, 190, 41],
      pg_admin_workload)]"


subsection \<open>\<^verbatim>\<open>CONFIG["mongo"]["queries"]\<close>\<close>

text \<open>
  The pipelines hold timestamps computed when the catalog is built,
  \<^verbatim>\<open>dt.datetime.utcnow() - dt.timedelta(...)\<close>; the parameter \<open>ago\<close> gives the value of
  that expression for each offset.
\<close>

definition mongo_heart_rate_trend :: "(timedelta \<Rightarrow> datetime) \<Rightarrow> mongo_query" where
  "mongo_heart_rate_trend ago =
     \<lparr>chart = [(''type'', PStr ''line''), (''x'', PStr ''_id''), (''y'', PStr ''avg_heart_rate'')],
      tags = Some [''patient'', ''medical_staff''],
      collection = ''sensor_readings'',
      aggregate =
        [PDict [(''$match'', PDict [(''patient_id'', PStr '':patient_id''), (''timestamp'', PDict [(''$gte'', PDatetime (ago (Hours 24)))]), (''heart_rate'', PDict [(''$exists'', PBool True)])])],
         PDict [(''$project'', PDict [(''hour'', PDict [(''$dateTrunc'', PDict [(''date'', PStr ''$timestamp''), (''unit'', PStr ''hour'')])]), (''heart_rate'', PInt 1)])],
         PDict [(''$group'', PDict [(''_id'', PStr ''$hour''), (''avg_heart_rate'', PDict [(''$avg'', PStr ''$heart_rate'')]), (''count'', PDict [(''$count'', PDict [])])])],
         PDict [(''$sort'', PDict [(''_id'', PInt 1)])]]\<rparr>"

definition mongo_low_spo2 :: "(timedelta \<Rightarrow> datetime) \<Rightarrow> mongo_query" where
  "mongo_low_spo2 ago =
     \<lparr>chart = [(''type'', PStr ''bar''), (''x'', PStr ''_id''), (''y'', PStr ''low_spo2_count'')],
      tags = Some [''medical_staff'', ''admin''],
      collection = ''sensor_readings'',
      aggregate =
        [PDict [(''$match'', PDict [(''timestamp'', PDict [(''$gte'', PDatetime (ago (Days 7)))]), (''spo2'', PDict [(''$lt'', PInt 92)])])],
         PDict [(''$group'', PDict [(''_id'', PStr ''$patient_id''), (''low_spo2_count'', PDict [(''$count'', PDict [])])])],
         PDict [(''$sort'', PDict [(''low_spo2_count'', PInt (- 1))])]]\<rparr>"

definition mongo_blood_pressure :: "(timedelta \<Rightarrow> datetime) \<Rightarrow> mongo_query" where
  "mongo_blood_pressure ago =
     \<lparr>chart = [(''type'', PStr ''pie''), (''names'', PStr ''_id''), (''values'', PStr ''count'')],
      tags = Some [''medical_staff'', ''admin''],
      collection = ''sensor_readings'',
      aggregate =
        [PDict [(''$match'', PDict [(''blood_pressure'', PDict [(''$exists'', PBool True)]), (''timestamp'', PDict [(''$gte'', PDatetime (ago (Days 30)))])])],
         PDict [(''$addFields'', PDict [(''systolic'', PDict [(''$toInt'', PDict [(''$arrayElemAt'', PList [PDict [(''$split'', PList [PStr ''$blood_pressure'', PStr ''/''])], PInt 0])])])])],
         PDict [(''$bucket'', PDict [(''groupBy'', PStr ''$systolic''), (''boundaries'', PList [PInt 0, PInt 90, PInt 120, PInt 140, PInt 160, PInt 200]), (''default'', PStr ''200+''), (''output'', PDict [(''count'', PDict [(''$sum'', PInt 1)])])])]]\<rparr>"

definition mongo_latest_device_status :: "(timedelta \<Rightarrow> datetime) \<Rightarrow> mongo_query" where
  "mongo_latest_device_status ago =
     \<lparr>chart = [(''type'', PStr ''table'')],
      tags = Some [''admin'', ''caregiver''],
      collection = ''device_status'',
      aggregate =
        [PDict [(''$sort'', PDict [(''timestamp'', PInt (- 1))])],
         PDict [(''$group'', PDict [(''_id'', PStr ''$sensor_id''), (''latest_status'', PDict [(''$first'', PStr ''$$ROOT'')])])],
         PDict [(''$replaceRoot'', PDict [(''newRoot'', PStr ''$latest_status'')])],
         PDict [(''$project'', PDict [(''_id'', PInt 0), (''sensor_id'', PInt 1), (''patient_id'', PInt 1), (''timestamp'', PInt 1), (''battery_level'', PInt 1), (''is_active'', PInt 1)])]]\<rparr>"

definition mongo_battery_distribution :: "(timedelta \<Rightarrow> datetime) \<Rightarrow> mongo_query" where
  "mongo_battery_distribution ago =
     \<lparr>chart = [(''type'', PStr ''pie''), (''names'', PStr ''_id''), (''values'', PStr ''count'')],
      tags = Some [''admin'', ''caregiver''],
      collection = ''device_status'',
      aggregate =
        [PDict [(''$project'', PDict [(''battery_level'', PDict [(''$ifNull'', PList [PStr ''$battery_level'', PInt 0])]), (''battery_range'', PDict [(''$switch'', PDict [(''branches'', PList [PDict [(''case'', PDict [(''$gte'', PList [PStr ''$battery_level'', PInt 80])]), (''then'', PStr ''80-100%'')], PDict [(''case'', PDict [(''$gte'', PList [PStr ''$battery_level'', PInt 60])]), (''then'', PStr ''60-79%'')], PDict [(''case'', PDict [(''$gte'', PList [PStr ''$battery_level'', PInt 40])]), (''then'', PStr ''40-59%'')], PDict [(''case'', PDict [(''$gte'', PList [PStr ''$battery_level'', PInt 20])]), (''then'', PStr ''20-39%'')]]), (''default'', PStr ''<20%'')])])])],
         PDict [(''$group'', PDict [(''_id'', PStr ''$battery_range''), (''count'', PDict [(''$count'', PDict [])])])],
         PDict [(''$sort'', PDict [(''count'', PInt (- 1))])]]\<rparr>"

definition mongo_low_battery :: "(timedelta \<Rightarrow> datetime) \<Rightarrow> mongo_query" where
  "mongo_low_battery ago =
     \<lparr>chart = [(''type'', PStr ''bar''), (''x'', PStr ''_id''), (''y'', PStr ''low_battery_count'')],
      tags = Some [''admin''],
      collection = ''device_status'',
      aggregate =
        [PDict [(''$match'', PDict [(''battery_level'', PDict [(''$lt'', PInt 20)]), (''is_active'', PBool True)])],
         PDict [(''$group'', PDict [(''_id'', PStr ''$sensor_id''), (''low_battery_count'', PDict [(''$count'', PDict [])])])],
         PDict [(''$sort'', PDict [(''low_battery_count'', PInt (- 1))])]]\<rparr>"

definition mongo_recent_alerts :: "(timedelta \<Rightarrow> datetime) \<Rightarrow> mongo_query" where
  "mongo_recent_alerts ago =
     \<lparr>chart = [(''type'', PStr ''table'')],
      tags = Some [''admin'', ''caregiver'', ''medical_staff''],
      collection = ''alerts'',
      aggregate =
        [PDict [(''$match'', PDict [(''timestamp'', PDict [(''$gte'', PDatetime (ago (Days 7)))])])],
         PDict [(''$group'', PDict [(''_id'', PStr ''$alert_type''), (''count'', PDict [(''$count'', PDict [])]), (''latest_timestamp'', PDict [(''$max'', PStr ''$timestamp'')])])],
         PDict [(''$sort'', PDict [(''count'', PInt (- 1))])]]\<rparr>"

definition mongo_alert_severity :: "(timedelta \<Rightarrow> datetime) \<Rightarrow> mongo_query" where
  "mongo_alert_severity ago =
     \<lparr>chart = [(''type'', PStr ''pie''), (''names'', PStr ''_id''), (''values'', PStr ''count'')],
      tags = Some [''admin'', ''medical_staff''],
      collection = ''alerts'',
      aggregate =
        [PDict [(''$match'', PDict [(''timestamp'', PDict [(''$gte'', PDatetime (ago (Days 30)))])])],
         PDict [(''$group'', PDict [(''_id'', PStr ''$severity''), (''count'', PDict [(''$count'', PDict [])])])],
         PDict [(''$sort'', PDict [(''count'', PInt (- 1))])]]\<rparr>"

definition mongo_alert_ranking :: "(timedelta \<Rightarrow> datetime) \<Rightarrow> mongo_query" where
  "mongo_alert_ranking ago =
     \<lparr>chart = [(''type'', PStr ''bar''), (''x'', PStr ''_id''), (''y'', PStr ''alert_count'')],
      tags = Some [''admin'', ''medical_staff''],
      collection = ''alerts'',
      aggregate =
        [PDict [(''$match'', PDict [(''timestamp'', PDict [(''$gte'', PDatetime (ago (Days 30)))])])],
         PDict [(''$group'', PDict [(''_id'', PStr ''$patient_id''), (''alert_count'', PDict [(''$count'', PDict [])])])],
         PDict [(''$sort'', PDict [(''alert_count'', PInt (- 1))])],
         PDict [(''$limit'', PInt 10)]]\<rparr>"

definition mongo_audit_log :: "(timedelta \<Rightarrow> datetime) \<Rightarrow> mongo_query" where
  "mongo_audit_log ago =
     \<lparr>chart = [(''type'', PStr ''table'')],
      tags = Some [''admin''],
      collection = ''audit_logs'',
      aggregate =
        [PDict [(''$match'', PDict [(''timestamp'', PDict [(''$gte'', PDatetime (ago (Hours 24)))])])],
         PDict [(''$group'', PDict [(''_id'', PStr ''$action''), (''count'', PDict [(''$count'', PDict [])]), (''users'', PDict [(''$addToSet'', PStr ''$user_id'')])])],
         PDict [(''$project'', PDict [(''action'', PStr ''$_id''), (''count'', PInt 1), (''unique_users'', PDict [(''$size'', PStr ''$users'')])])],
         PDict [(''$sort'', PDict [(''count'', PInt (- 1))])]]\<rparr>"

definition mongo_audit_actions :: "(timedelta \<Rightarrow> datetime) \<Rightarrow> mongo_query" where
  "mongo_audit_actions ago =
     \<lparr>chart = [(''type'', PStr ''pie''), (''names'', PStr ''_id''), (''values'', PStr ''count'')],
      tags = Some [''admin''],
      collection = ''audit_logs'',
      aggregate =
        [PDict [(''$match'', PDict [(''timestamp'', PDict [(''$gte'', PDatetime (ago (Days 7)))])])],
         PDict [(''$group'', PDict [(''_id'', PStr ''$action''), (''count'', PDict [(''$count'', PDict [])])])],
         PDict [(''$sort'', PDict [(''count'', PInt (- 1))])]]\<rparr>"

definition mongo_audit_trend :: "(timedelta \<Rightarrow> datetime) \<Rightarrow> mongo_query" where
  "mongo_audit_trend ago =
     \<lparr>chart = [(''type'', PStr ''line''), (''x'', PStr ''day''), (''y'', PStr ''total_actions'')],
      tags = Some [''admin''],
      collection = ''audit_logs'',
      aggregate =
        [PDict [(''$match'', PDict [(''timestamp'', PDict [(''$gte'', PDatetime (ago (Days 7)))])])],
         PDict [(''$project'', PDict [(''day'', PDict [(''$dateTrunc'', PDict [(''date'', PStr ''$timestamp''), (''unit'', PStr ''day'')])]), (''user_id'', PInt 1)])],
         PDict [(''$group'', PDict [(''_id'', PStr ''$day''), (''unique_users'', PDict [(''$addToSet'', PStr ''$user_id'')]), (''total_actions'', PDict [(''$count'', PDict [])])])],
         PDict [(''$project'', PDict [(''day'', PStr ''$_id''), (''unique_users_count'', PDict [(''$size'', PStr ''$unique_users'')]), (''total_actions'', PInt 1)])],
         PDict [(''$sort'', PDict [(''day'', PInt 1)])]]\<rparr>"

definition mongo_queries :: "(timedelta \<Rightarrow> datetime) \<Rightarrow> mongo_query pydict" where
  "mongo_queries ago =
     [(utf8 [228, 188, 160, 230, 132, 159, 229, 153, 168, 58, 32, 230, 130, 163, 232, 128, 133, 229, 191, 131, 231, 142, 135, 232, 182, 139, 229, 138, 191, 32, 40, 232, 191, 135, 229, 142, 187, 50, 52, 229, 176, 143, 230, 151, 182, 41],
      mongo_heart_rate_trend ago),
      (utf8 [228, 188, 160, 230, 132, 159, 229, 153, 168, 58, 32, 232, 161, 128, 230, 176, 167, 229, 188, 130, 229, 184, 184, 230, 163, 128, 230, 181, 139, 32, 40, 232, 191, 135, 229, 142, 187, 55, 229, 164, 169, 41],
      mongo_low_spo2 ago),
      (utf8 [228, 188, 160, 230, 132, 159, 229, 153, 168, 58, 32, 232, 161, 128, 229, 142, 139, 229, 136, 134, 229, 184, 131, 231, 187, 159, 232, 174, 161],
      mongo_blood_pressure ago),
      (utf8 [232, 174, 190, 229, 164, 135, 58, 32, 230, 156, 128, 230, 150, 176, 232, 174, 190, 229, 164, 135, 231, 138, 182, 230, 128, 129, 32, 40, 232, 161, 168, 230, 160, 188, 41],
      mongo_latest_device_status ago),
      (utf8 [232, 174, 190, 229, 164, 135, 58, 32, 231, 148, 181, 230, 177, 160, 231, 148, 181, 233, 135, 143, 229, 136, 134, 229, 184, 131],
      mongo_battery_distribution ago),
      (utf8 [232, 174, 190, 229, 164, 135, 58, 32, 228, 189, 142, 231, 148, 181, 233, 135, 143, 232, 174, 190, 229, 164, 135, 232, 173, 166, 230, 138, 165],
      mongo_low_battery ago),
      (utf8 [232, 173, 166, 230, 138, 165, 58, 32, 230, 156, 128, 232, 191, 145, 232, 173, 166, 230, 138, 165, 231, 187, 159, 232, 174, 161, 32, 40, 232, 161, 168, 230, 160, 188, 41],
      mongo_recent_alerts ago),
      (utf8 [232, 173, 166, 230, 138, 165, 58, 32, 232, 173, 166, 230, 138, 165, 228, 184, 165, 233, 135, 141, 231, 168, 139, 229, 186, 166, 229, 136, 134, 229, 184, 131],
      mongo_alert_severity ago),
      (utf8 [232, 173, 166, 230, 138, 165, 58, 32, 230, 130, 163, 232, 128, 133, 232, 173, 166, 230, 138, 165, 233, 162, 145, 231, 142, 135, 230, 142, 146, 232, 161, 140],
      mongo_alert_ranking ago),
      (utf8 [229, 174, 161, 232, 174, 161, 58, 32, 231, 148, 168, 230, 136, 183, 230, 147, 141, 228, 189, 156, 230, 151, 165, 229, 191, 151, 32, 40, 230, 156, 128, 232, 191, 145, 50, 52, 229, 176, 143, 230, 151, 182, 41],
      mongo_audit_log ago),
      (utf8 [229, 174, 161, 232, 174, 161, 58, 32, 230, 147, 141, 228, 189, 156, 231, 177, 187, 229, 158, 139, 229, 136, 134, 229, 184, 131],
      mongo_audit_actions ago),
      (utf8 [229, 174, 161, 232, 174, 161, 58, 32, 231, 148, 168, 230, 136, 183, 230, 180, 187, 229, 138, 168, 232, 182, 139, 229, 138, 191, 32, 40, 232, 191, 135, 229, 142, 187, 55, 229, 164, 169, 41],
      mongo_audit_trend ago)]"


section \<open>The parameter context\<close>

text \<open>
  \<^verbatim>\<open>PARAMS_CTX\<close> is built from the seven sidebar inputs, each converted with \<^verbatim>\<open>int\<close>.
\<close>

definition PARAMS_CTX :: "int \<Rightarrow> int \<Rightarrow> int \<Rightarrow> int \<Rightarrow> int \<Rightarrow> int \<Rightarrow> int \<Rightarrow> pyval pydict" where
  "PARAMS_CTX patient_id caregiver_id staff_id device_id alert_threshold days battery_threshold =
     [(''patient_id'', PInt patient_id),
      (''caregiver_id'', PInt caregiver_id),
      (''staff_id'', PInt staff_id),
      (''device_id'', PInt device_id),
      (''alert_threshold'', PInt alert_threshold),
      (''days'', PInt days),
      (''battery_threshold'', PInt battery_threshold)]"

section \<open>The Postgres panel\<close>

text \<open>
  \<^verbatim>\<open>qualify\<close> replaces the schema token of a statement template by the configured schema
  name \<^verbatim>\<open>PG_SCHEMA\<close>, here the parameter \<open>schema\<close>.
\<close>

definition qualify :: "string \<Rightarrow> string \<Rightarrow> string" where
  "qualify schema s = str_replace s ''{S}.'' (schema @ ''.'')"

text \<open>\<^verbatim>\<open>wanted = q.get("params", [])\<close>\<close>

definition wanted :: "pg_query \<Rightarrow> string list" where
  "wanted q = (case params q of None \<Rightarrow> [] | Some ks \<Rightarrow> ks)"

text \<open>
  \<^verbatim>\<open>{k: PARAMS_CTX[k] for k in wanted}\<close>: the names are looked up in their declared order;
  the first one absent from the context raises \<^verbatim>\<open>KeyError\<close> and ends the comprehension.
\<close>

fun collect_params :: "pyval pydict \<Rightarrow> string list \<Rightarrow> pyval pydict \<Rightarrow> error + pyval pydict" where
  "collect_params ctx [] acc = Inr acc"
| "collect_params ctx (k # ks) acc =
     (case dict_index ctx k of
        Inl e \<Rightarrow> Inl e
      | Inr v \<Rightarrow> collect_params ctx ks (dict_set acc k v))"

text \<open>
  The binding steps of the Postgres run block: the statement text is the qualified
  template, and the bind variables are collected from the parameter context.
\<close>

definition pg_bind :: "string \<Rightarrow> pyval pydict \<Rightarrow> pg_query \<Rightarrow> error + (string \<times> pyval pydict)" where
  "pg_bind schema ctx q =
     (let stmt = qualify schema (sql q)
      in and_then (collect_params ctx (wanted q) []) (\<lambda>binds. Inr (stmt, binds)))"

text \<open>
  \<^verbatim>\<open>run_pg_query\<close> hands the statement and the bind variables (\<^verbatim>\<open>params or {}\<close>) to
  \<^verbatim>\<open>pd.read_sql\<close>, the execution layer, here the parameter \<open>read_sql\<close>.
\<close>

definition run_pg_query ::
  "(string \<Rightarrow> pyval pydict \<Rightarrow> error + 'df) \<Rightarrow> string \<Rightarrow> pyval pydict option \<Rightarrow> error + 'df" where
  "run_pg_query read_sql stmt ps = read_sql stmt (case ps of None \<Rightarrow> [] | Some d \<Rightarrow> d)"

text \<open>
  \<^verbatim>\<open>filter_queries_by_role\<close>: \<^verbatim>\<open>ok\<close> lower-cases the tags, with \<^verbatim>\<open>["all"]\<close> standing in for
  an absent or empty tag list, and the dictionary comprehension keeps the entries that
  pass, in the catalog's order.
\<close>

definition ok :: "string \<Rightarrow> string list option \<Rightarrow> bool" where
  "ok role tgs =
     (let t = map lower (case tgs of None \<Rightarrow> [''all''] | Some ts \<Rightarrow> if ts = [] then [''all''] else ts)
      in ''all'' \<in> set t \<or> lower role \<in> set t)"

definition filter_queries_by_role ::
  "('a query_scheme) pydict \<Rightarrow> string \<Rightarrow> ('a query_scheme) pydict" where
  "filter_queries_by_role qdict role = filter (\<lambda>(name, q). ok role (tags q)) qdict"

section \<open>Rendering\<close>

text \<open>
  A result frame: its column labels and its rows, each row giving a cell for every
  column. \<^verbatim>\<open>df.empty\<close> holds when the frame has no column or no row.
\<close>

record dataframe =
  df_columns :: "string list"
  df_rows :: "pyval pydict list"

definition df_empty :: "dataframe \<Rightarrow> bool" where
  "df_empty df = (df_columns df = [] \<or> df_rows df = [])"

text \<open>
  What pandas and plotly do is outside the application; \<^verbatim>\<open>render_chart\<close> takes their
  operations as a record of functions, each returning its result or the exception it
  raises.
\<close>

record ('fig, 'pivot) library =
  col_is_object :: "dataframe \<Rightarrow> string \<Rightarrow> error + bool"
  col_to_datetime :: "dataframe \<Rightarrow> string \<Rightarrow> error + dataframe"
  px_line :: "dataframe \<Rightarrow> pyval \<Rightarrow> pyval \<Rightarrow> error + 'fig"
  px_bar :: "dataframe \<Rightarrow> pyval \<Rightarrow> pyval \<Rightarrow> error + 'fig"
  px_pie :: "dataframe \<Rightarrow> pyval \<Rightarrow> pyval \<Rightarrow> error + 'fig"
  pivot_table :: "dataframe \<Rightarrow> pyval \<Rightarrow> pyval \<Rightarrow> pyval \<Rightarrow> error + 'pivot"
  px_imshow :: "'pivot \<Rightarrow> pyval \<Rightarrow> pyval \<Rightarrow> pyval \<Rightarrow> error + 'fig"
  px_treemap :: "dataframe \<Rightarrow> pyval \<Rightarrow> pyval \<Rightarrow> error + 'fig"

text \<open>What a panel puts on the page.\<close>

datatype 'fig widget =
    StInfo string
  | StDataframe dataframe
  | StPlotlyChart 'fig
  | StError string

text \<open>
  The light datetime parsing: for each column \<open>c\<close> whose \<^verbatim>\<open>df[c].dtype\<close> is
  \<^verbatim>\<open>"object"\<close>, \<^verbatim>\<open>df[c] = pd.to_datetime(df[c])\<close> is tried and its exception swallowed.
  The dtype test stands outside the \<^verbatim>\<open>try\<close>.
\<close>

fun parse_object_columns ::
  "('fig, 'pivot) library \<Rightarrow> string list \<Rightarrow> dataframe \<Rightarrow> error + dataframe" where
  "parse_object_columns L [] df = Inr df"
| "parse_object_columns L (c # cs) df =
     and_then (col_is_object L df c) (\<lambda>obj.
       if obj then
         (case col_to_datetime L df c of
            Inl e \<Rightarrow> parse_object_columns L cs df
          | Inr df' \<Rightarrow> parse_object_columns L cs df')
       else parse_object_columns L cs df)"

text \<open>\<^verbatim>\<open>spec.get("type", "table")\<close>\<close>

definition chart_type :: "pyval pydict \<Rightarrow> pyval" where
  "chart_type spec = (case map_of spec ''type'' of None \<Rightarrow> PStr ''table'' | Some v \<Rightarrow> v)"

definition show_chart :: "error + 'fig \<Rightarrow> error + 'fig widget" where
  "show_chart r = and_then r (\<lambda>fig. Inr (StPlotlyChart fig))"

definition render_chart ::
  "('fig, 'pivot) library \<Rightarrow> dataframe \<Rightarrow> pyval pydict \<Rightarrow> error + 'fig widget" where
  "render_chart L df spec =
     (if df_empty df then Inr (StInfo ''No rows.'')
      else
        let ctype = chart_type spec
        in and_then (parse_object_columns L (df_columns df) df) (\<lambda>df.
             if ctype = PStr ''table'' then Inr (StDataframe df)
             else if ctype = PStr ''line'' then
               and_then (dict_index spec ''x'') (\<lambda>x.
               and_then (dict_index spec ''y'') (\<lambda>y.
                 show_chart (px_line L df x y)))
             else if ctype = PStr ''bar'' then
               and_then (dict_index spec ''x'') (\<lambda>x.
               and_then (dict_index spec ''y'') (\<lambda>y.
                 show_chart (px_bar L df x y)))
             else if ctype = PStr ''pie'' then
               and_then (dict_index spec ''names'') (\<lambda>names.
               and_then (dict_index spec ''values'') (\<lambda>vals.
                 show_chart (px_pie L df names vals)))
             else if ctype = PStr ''heatmap'' then
               and_then (dict_index spec ''rows'') (\<lambda>rows.
               and_then (dict_index spec ''cols'') (\<lambda>cols.
               and_then (dict_index spec ''values'') (\<lambda>vals.
               and_then (pivot_table L df rows cols vals) (\<lambda>pivot.
                 show_chart (px_imshow L pivot cols rows vals)))))
             else if ctype = PStr ''treemap'' then
               and_then (dict_index spec ''path'') (\<lambda>path.
               and_then (dict_index spec ''values'') (\<lambda>vals.
                 show_chart (px_treemap L df path vals)))
             else Inr (StDataframe df)))"

text \<open>
  The Postgres run block after a query is chosen and run is pressed: bind, execute,
  render.
\<close>

definition pg_run_block ::
  "(string \<Rightarrow> pyval pydict \<Rightarrow> error + dataframe) \<Rightarrow> ('fig, 'pivot) library \<Rightarrow> string
     \<Rightarrow> pyval pydict \<Rightarrow> pg_query \<Rightarrow> error + 'fig widget" where
  "pg_run_block read_sql L schema ctx q =
     and_then (pg_bind schema ctx q) (\<lambda>(stmt, binds).
     and_then (run_pg_query read_sql stmt (Some binds)) (\<lambda>df.
       render_chart L df (chart q)))"

text \<open>
  \<^verbatim>\<open>str(e)\<close> of an exception, and the handler that closes each panel:
  \<^verbatim>\<open>except Exception as e: st.error(f"Postgres error: {e}")\<close>.
\<close>

definition exc_str :: "error \<Rightarrow> string" where
  "exc_str e = (case e of KeyError k \<Rightarrow> repr_str k | Exception cls msg \<Rightarrow> msg)"

definition panel :: "string \<Rightarrow> error + 'fig widget \<Rightarrow> 'fig widget" where
  "panel label r = (case r of Inl e \<Rightarrow> StError (label @ '' error: '' @ exc_str e) | Inr w \<Rightarrow> w)"

definition pg_panel ::
  "(string \<Rightarrow> pyval pydict \<Rightarrow> error + dataframe) \<Rightarrow> ('fig, 'pivot) library \<Rightarrow> string
     \<Rightarrow> pyval pydict \<Rightarrow> pg_query \<Rightarrow> 'fig widget" where
  "pg_panel read_sql L schema ctx q = panel ''Postgres'' (pg_run_block read_sql L schema ctx q)"

section \<open>The Mongo panel\<close>

text \<open>
  The parameter substitution of \<^verbatim>\<open>run_mongo_aggregate\<close>: for each item of \<^verbatim>\<open>params\<close>,
  in the dictionary's order, the text \<^verbatim>\<open>":" + key\<close> is replaced by \<^verbatim>\<open>str(value)\<close> in the
  text of the pipeline.
\<close>

fun substitute :: "string \<Rightarrow> pyval pydict \<Rightarrow> string" where
  "substitute stages_str [] = stages_str"
| "substitute stages_str ((key, val) # items) =
     substitute (str_replace stages_str (CHR '':'' # key) (py_str val)) items"

text \<open>
  With a non-empty \<^verbatim>\<open>params\<close> the pipeline becomes \<^verbatim>\<open>eval\<close> of the substituted text of
  \<^verbatim>\<open>str(stages)\<close>; \<^verbatim>\<open>eval\<close> is Python's, here the parameter \<open>ev\<close>. Otherwise the pipeline
  stays as it is.
\<close>

definition bind_stages ::
  "(string \<Rightarrow> error + pyval) \<Rightarrow> pyval list \<Rightarrow> pyval pydict option \<Rightarrow> error + pyval" where
  "bind_stages ev stages ps =
     (case ps of
        None \<Rightarrow> Inr (PList stages)
      | Some items \<Rightarrow>
          if items = [] then Inr (PList stages)
          else ev (substitute (py_repr (PList stages)) items))"

text \<open>
  Modelled from the spec: \<^verbatim>\<open>pd.json_normalize\<close>, the flattening of result documents into
  a frame, belongs to pandas and is not in the repository. The spec has each document
  flattened to a row, nested fields becoming dotted column names; the columns are the
  union of all fields observed (here in order of first appearance), and a field absent
  from a document is null in its row.
\<close>

fun flatten_doc :: "string \<Rightarrow> pyval pydict \<Rightarrow> pyval pydict" where
  "flatten_doc pre [] = []"
| "flatten_doc pre ((k, v) # kvs) =
     (case v of
        PDict sub \<Rightarrow> flatten_doc (pre @ k @ ''.'') sub
      | _ \<Rightarrow> [(pre @ k, v)]) @ flatten_doc pre kvs"

fun union_fields :: "string list \<Rightarrow> string list \<Rightarrow> string list" where
  "union_fields acc [] = acc"
| "union_fields acc (c # cs) = union_fields (if c \<in> set acc then acc else acc @ [c]) cs"

definition observed_fields :: "pyval pydict list \<Rightarrow> string list" where
  "observed_fields docs = foldl union_fields [] (map (\<lambda>d. map fst (flatten_doc [] d)) docs)"

definition cell :: "pyval pydict \<Rightarrow> string \<Rightarrow> pyval" where
  "cell flat c = (case map_of flat c of None \<Rightarrow> PNone | Some v \<Rightarrow> v)"

definition json_normalize :: "pyval pydict list \<Rightarrow> dataframe" where
  "json_normalize docs =
     (let cols = observed_fields docs
      in \<lparr>df_columns = cols,
          df_rows = map (\<lambda>d. map (\<lambda>c. (c, cell (flatten_doc [] d) c)) cols) docs\<rparr>)"

text \<open>
  \<^verbatim>\<open>run_mongo_aggregate\<close>: substitute, run the pipeline (\<^verbatim>\<open>db[coll].aggregate\<close>, here the
  parameter \<open>agg\<close>), and turn the documents into a frame, the empty frame when there are
  none.
\<close>

definition run_mongo_aggregate ::
  "(string \<Rightarrow> error + pyval) \<Rightarrow> (string \<Rightarrow> string \<Rightarrow> pyval \<Rightarrow> error + pyval pydict list)
     \<Rightarrow> string \<Rightarrow> string \<Rightarrow> pyval list \<Rightarrow> pyval pydict option \<Rightarrow> error + dataframe" where
  "run_mongo_aggregate ev agg db_name coll stages ps =
     and_then (bind_stages ev stages ps) (\<lambda>pipeline.
     and_then (agg db_name coll pipeline) (\<lambda>docs.
       Inr (if docs \<noteq> [] then json_normalize docs else \<lparr>df_columns = [], df_rows = []\<rparr>)))"

text \<open>
  The parameter detection of the Mongo run block: for each of the six names in turn,
  \<^verbatim>\<open>if name in q.get("aggregate", []): mongo_params[name] = PARAMS_CTX[name]\<close>. The test
  is list membership: the name is compared with each stage.
\<close>

definition mongo_param_names :: "string list" where
  "mongo_param_names =
     [''patient_id'', ''caregiver_id'', ''staff_id'', ''device_id'', ''alert_threshold'',
      ''battery_threshold'']"

fun detect_params ::
  "pyval list \<Rightarrow> pyval pydict \<Rightarrow> string list \<Rightarrow> pyval pydict \<Rightarrow> error + pyval pydict" where
  "detect_params stages ctx [] mongo_params = Inr mongo_params"
| "detect_params stages ctx (name # names) mongo_params =
     (if PStr name \<in> set stages then
        and_then (dict_index ctx name) (\<lambda>v.
          detect_params stages ctx names (dict_set mongo_params name v))
      else detect_params stages ctx names mongo_params)"

definition mongo_run_block ::
  "(string \<Rightarrow> error + pyval) \<Rightarrow> (string \<Rightarrow> string \<Rightarrow> pyval \<Rightarrow> error + pyval pydict list)
     \<Rightarrow> ('fig, 'pivot) library \<Rightarrow> string \<Rightarrow> pyval pydict \<Rightarrow> mongo_query \<Rightarrow> error + 'fig widget" where
  "mongo_run_block ev agg L db_name ctx q =
     and_then (detect_params (aggregate q) ctx mongo_param_names []) (\<lambda>mongo_params.
     and_then (run_mongo_aggregate ev agg db_name (collection q) (aggregate q) (Some mongo_params))
       (\<lambda>dfm. render_chart L dfm (chart q)))"

definition mongo_panel ::
  "(string \<Rightarrow> error + pyval) \<Rightarrow> (string \<Rightarrow> string \<Rightarrow> pyval \<Rightarrow> error + pyval pydict list)
     \<Rightarrow> ('fig, 'pivot) library \<Rightarrow> string \<Rightarrow> pyval pydict \<Rightarrow> mongo_query \<Rightarrow> 'fig widget" where
  "mongo_panel ev agg L db_name ctx q = panel ''Mongo'' (mongo_run_block ev agg L db_name ctx q)"

section \<open>The result cache\<close>

text \<open>
  Both query functions are decorated with \<^verbatim>\<open>@st.cache_data(ttl=60)\<close>.
\<close>

definition cache_ttl :: nat where
  "cache_ttl = 60"

text \<open>
  Modelled from the spec: the cache itself is Streamlit's and is not in the repository.
  The spec's \<^verbatim>\<open>get_or_compute(key, ttl, compute_fn)\<close> returns the stored result of an
  entry younger than the TTL, its age measured from the time it was computed; an expired
  or absent entry is computed afresh and stored. The clock is the argument \<open>now\<close>, in
  seconds; \<open>executions\<close> counts the runs of \<open>compute_fn\<close>.
\<close>

record 'v cache_entry =
  stored :: 'v
  computed_at :: nat

record ('k, 'v) result_cache =
  entries :: "'k \<Rightarrow> 'v cache_entry option"
  executions :: nat

definition recompute ::
  "'k \<Rightarrow> (unit \<Rightarrow> error + 'v) \<Rightarrow> nat \<Rightarrow> ('k, 'v) result_cache
     \<Rightarrow> (error + 'v) \<times> ('k, 'v) result_cache" where
  "recompute key compute_fn now c =
     (case compute_fn () of
        Inl e \<Rightarrow> (Inl e, c\<lparr>executions := Suc (executions c)\<rparr>)
      | Inr v \<Rightarrow>
          (Inr v, c\<lparr>entries := (entries c)(key \<mapsto> \<lparr>stored = v, computed_at = now\<rparr>),
                    executions := Suc (executions c)\<rparr>))"

definition get_or_compute ::
  "'k \<Rightarrow> nat \<Rightarrow> (unit \<Rightarrow> error + 'v) \<Rightarrow> nat \<Rightarrow> ('k, 'v) result_cache
     \<Rightarrow> (error + 'v) \<times> ('k, 'v) result_cache" where
  "get_or_compute key ttl compute_fn now c =
     (case entries c key of
        None \<Rightarrow> recompute key compute_fn now c
      | Some e \<Rightarrow>
          if now < computed_at e + ttl then (Inr (stored e), c)
          else recompute key compute_fn now c)"

text \<open>
  The decorated functions: the arguments without a leading underscore form the key.
\<close>

definition cached_run_pg_query ::
  "(string \<Rightarrow> pyval pydict \<Rightarrow> error + dataframe) \<Rightarrow> string \<Rightarrow> pyval pydict option \<Rightarrow> nat
     \<Rightarrow> (string \<times> pyval pydict option, dataframe) result_cache
     \<Rightarrow> (error + dataframe) \<times> (string \<times> pyval pydict option, dataframe) result_cache" where
  "cached_run_pg_query read_sql stmt ps now c =
     get_or_compute (stmt, ps) cache_ttl (\<lambda>_. run_pg_query read_sql stmt ps) now c"

section \<open>An evaluator for literal displays\<close>

text \<open>
  For concrete pipelines the parameter \<open>ev\<close> is instantiated with \<open>literal_eval\<close>. It
  agrees with \<^verbatim>\<open>eval\<close> on the texts that \<^verbatim>\<open>str\<close> produces for pipelines and that the
  substitution leaves well-formed: list and dictionary displays with string keys, string
  and integer literals, \<^verbatim>\<open>True\<close>, \<^verbatim>\<open>False\<close> and \<^verbatim>\<open>None\<close>. The text is parsed before anything
  is evaluated, so malformed text is a \<^verbatim>\<open>SyntaxError\<close> whatever it holds. A name is
  reported as unbound, which is what happens to the \<^verbatim>\<open>datetime\<close> of a timestamp's
  \<^verbatim>\<open>repr\<close> where \<^verbatim>\<open>run_mongo_aggregate\<close> evaluates, the module being imported as
  \<^verbatim>\<open>dt\<close>. Other expression forms are outside the fragment, and no agreement with
  \<^verbatim>\<open>eval\<close> is claimed for them.
\<close>

datatype token = TSym char | TStr string | TInt nat | TName string

definition is_digit :: "char \<Rightarrow> bool" where
  "is_digit c = (let n = (of_char c :: nat) in 48 \<le> n \<and> n \<le> 57)"

definition is_name_char :: "char \<Rightarrow> bool" where
  "is_name_char c =
     (let n = (of_char c :: nat)
      in (65 \<le> n \<and> n \<le> 90) \<or> (97 \<le> n \<and> n \<le> 122) \<or> (48 \<le> n \<and> n \<le> 57) \<or> n = 95)"

definition digit_val :: "char \<Rightarrow> nat" where
  "digit_val c = (of_char c :: nat) - 48"

definition nat_of_digits :: "string \<Rightarrow> nat" where
  "nat_of_digits ds = foldl (\<lambda>acc c. 10 * acc + digit_val c) 0 ds"

definition hex_val :: "char \<Rightarrow> nat option" where
  "hex_val c =
     (let n = (of_char c :: nat)
      in if 48 \<le> n \<and> n \<le> 57 then Some (n - 48)
         else if 97 \<le> n \<and> n \<le> 102 then Some (n - 87)
         else if 65 \<le> n \<and> n \<le> 70 then Some (n - 55)
         else None)"

text \<open>
  The body of a string literal up to the closing quote, with the escapes that \<^verbatim>\<open>repr\<close>
  writes decoded; any other escape keeps its backslash.
\<close>

fun lex_string :: "char \<Rightarrow> string \<Rightarrow> string \<Rightarrow> (string \<times> string) option" where
  "lex_string quote [] acc = None"
| "lex_string quote (c # cs) acc =
     (if c = quote then Some (rev acc, cs)
      else if c = CHR 0x5C then
        (case cs of
           [] \<Rightarrow> None
         | e # rest \<Rightarrow>
             (if e = CHR ''n'' then lex_string quote rest (CHR 0x0A # acc)
              else if e = CHR ''r'' then lex_string quote rest (CHR 0x0D # acc)
              else if e = CHR ''t'' then lex_string quote rest (CHR 0x09 # acc)
              else if e = CHR 0x5C \<or> e = CHR 0x27 \<or> e = CHR 0x22 then
                lex_string quote rest (e # acc)
              else if e = CHR ''x'' then
                (case rest of
                   h1 # h2 # rest' \<Rightarrow>
                     (case (hex_val h1, hex_val h2) of
                        (Some a, Some b) \<Rightarrow> lex_string quote rest' (char_of (16 * a + b) # acc)
                      | _ \<Rightarrow> None)
                 | _ \<Rightarrow> None)
              else lex_string quote rest (e # CHR 0x5C # acc)))
      else if c = CHR 0x0A then None
      else lex_string quote cs (c # acc))"


text \<open>A decimal literal may not start with a zero unless it is all zeros.\<close>

definition valid_decimal :: "string \<Rightarrow> bool" where
  "valid_decimal ds =
     (case ds of
        [] \<Rightarrow> False
      | d # rest \<Rightarrow> d \<noteq> CHR ''0'' \<or> list_all (\<lambda>c. c = CHR ''0'') rest)"

text \<open>The tokens of a text; the first argument bounds the number of steps.\<close>

primrec lex :: "nat \<Rightarrow> string \<Rightarrow> token list option" where
  "lex 0 s = None"
| "lex (Suc n) s =
     (case s of
        [] \<Rightarrow> Some []
      | c # cs \<Rightarrow>
          (if c = CHR '' '' then lex n cs
           else if c \<in> set ''[]{}(),:.-'' then map_option (Cons (TSym c)) (lex n cs)
           else if c = CHR 0x27 \<or> c = CHR 0x22 then
             (case lex_string c cs [] of
                None \<Rightarrow> None
              | Some (s, rest) \<Rightarrow> map_option (Cons (TStr s)) (lex n rest))
           else if is_digit c then
             (if valid_decimal (takeWhile is_digit (c # cs)) then
                map_option (Cons (TInt (nat_of_digits (takeWhile is_digit (c # cs)))))
                  (lex n (dropWhile is_digit cs))
              else None)
           else if is_name_char c then
             map_option (Cons (TName (takeWhile is_name_char (c # cs))))
               (lex n (dropWhile is_name_char cs))
           else None))"

datatype expr =
    EConst pyval
  | EList "expr list"
  | EDict "(expr \<times> expr) list"
  | EName string
  | EAttr expr string
  | ECall expr "expr list"
  | ENeg expr

definition name_expr :: "string \<Rightarrow> expr" where
  "name_expr x =
     (if x = ''None'' then EConst PNone
      else if x = ''True'' then EConst (PBool True)
      else if x = ''False'' then EConst (PBool False)
      else EName x)"

definition starts_with :: "char \<Rightarrow> token list \<Rightarrow> bool" where
  "starts_with c ts = (take 1 ts = [TSym c])"

fun parse_expr :: "nat \<Rightarrow> token list \<Rightarrow> (expr \<times> token list) option"
  and parse_trailer :: "nat \<Rightarrow> expr \<Rightarrow> token list \<Rightarrow> (expr \<times> token list) option"
  and parse_elems :: "nat \<Rightarrow> char \<Rightarrow> token list \<Rightarrow> (expr list \<times> token list) option"
  and parse_items :: "nat \<Rightarrow> token list \<Rightarrow> ((expr \<times> expr) list \<times> token list) option" where
  "parse_expr 0 ts = None"
| "parse_expr (Suc n) ts =
     (case ts of
        [] \<Rightarrow> None
      | TStr s # rest \<Rightarrow> parse_trailer n (EConst (PStr s)) rest
      | TInt k # rest \<Rightarrow> parse_trailer n (EConst (PInt (int k))) rest
      | TName x # rest \<Rightarrow> parse_trailer n (name_expr x) rest
      | TSym c # rest \<Rightarrow>
          (if c = CHR ''-'' then
             (case parse_expr n rest of None \<Rightarrow> None | Some (e, rest') \<Rightarrow> Some (ENeg e, rest'))
           else if c = CHR ''['' then
             (case parse_elems n (CHR '']'') rest of
                None \<Rightarrow> None
              | Some (es, rest') \<Rightarrow> parse_trailer n (EList es) rest')
           else if c = CHR ''{'' then
             (case parse_items n rest of
                None \<Rightarrow> None
              | Some (kvs, rest') \<Rightarrow> parse_trailer n (EDict kvs) rest')
           else None))"
| "parse_trailer 0 e ts = None"
| "parse_trailer (Suc n) e ts =
     (if starts_with (CHR ''.'') ts then
        (case drop 1 ts of
           TName x # rest \<Rightarrow> parse_trailer n (EAttr e x) rest
         | _ \<Rightarrow> None)
      else if starts_with (CHR ''('') ts then
        (case parse_elems n (CHR '')'') (drop 1 ts) of
           None \<Rightarrow> None
         | Some (args, rest) \<Rightarrow> parse_trailer n (ECall e args) rest)
      else Some (e, ts))"
| "parse_elems 0 close ts = None"
| "parse_elems (Suc n) close ts =
     (if starts_with close ts then Some ([], drop 1 ts)
      else (case parse_expr n ts of
              None \<Rightarrow> None
            | Some (e, ts') \<Rightarrow>
                (if starts_with (CHR '','') ts' then
                   (case parse_elems n close (drop 1 ts') of
                      None \<Rightarrow> None
                    | Some (es, ts'') \<Rightarrow> Some (e # es, ts''))
                 else if starts_with close ts' then Some ([e], drop 1 ts')
                 else None)))"
| "parse_items 0 ts = None"
| "parse_items (Suc n) ts =
     (if starts_with (CHR ''}'') ts then Some ([], drop 1 ts)
      else (case parse_expr n ts of
              None \<Rightarrow> None
            | Some (k, ts1) \<Rightarrow>
                (if starts_with (CHR '':'') ts1 then
                   (case parse_expr n (drop 1 ts1) of
                      None \<Rightarrow> None
                    | Some (v, ts2) \<Rightarrow>
                        (if starts_with (CHR '','') ts2 then
                           (case parse_items n (drop 1 ts2) of
                              None \<Rightarrow> None
                            | Some (kvs, ts3) \<Rightarrow> Some ((k, v) # kvs, ts3))
                         else if starts_with (CHR ''}'') ts2 then Some ([(k, v)], drop 1 ts2)
                         else None))
                 else None)))"

text \<open>The exceptions of the evaluator.\<close>

definition syntax_error :: error where
  "syntax_error = Exception ''SyntaxError'' ''invalid syntax''"

definition name_error :: "string \<Rightarrow> error" where
  "name_error x = Exception ''NameError'' (''name '' @ [CHR 0x27] @ x @ [CHR 0x27] @ '' is not defined'')"

definition unsupported :: error where
  "unsupported = Exception ''Unsupported'' ''outside the literal fragment''"

text \<open>
  Evaluation goes left to right and stops at the first exception; a dictionary display
  keeps the first position and the last value of a repeated key.
\<close>

function (sequential) eval_expr :: "expr \<Rightarrow> error + pyval"
  and eval_elems :: "expr list \<Rightarrow> error + pyval list"
  and eval_items :: "(expr \<times> expr) list \<Rightarrow> pyval pydict \<Rightarrow> error + pyval pydict" where
  "eval_expr (EConst v) = Inr v"
| "eval_expr (EName x) = Inl (name_error x)"
| "eval_expr (EList es) = (case eval_elems es of Inl e \<Rightarrow> Inl e | Inr vs \<Rightarrow> Inr (PList vs))"
| "eval_expr (EDict kvs) = (case eval_items kvs [] of Inl e \<Rightarrow> Inl e | Inr d \<Rightarrow> Inr (PDict d))"
| "eval_expr (EAttr e x) = (case eval_expr e of Inl err \<Rightarrow> Inl err | Inr v \<Rightarrow> Inl unsupported)"
| "eval_expr (ECall f args) = (case eval_expr f of Inl err \<Rightarrow> Inl err | Inr v \<Rightarrow> Inl unsupported)"
| "eval_expr (ENeg e) =
     (case eval_expr e of
        Inl err \<Rightarrow> Inl err
      | Inr v \<Rightarrow> (case v of PInt i \<Rightarrow> Inr (PInt (- i)) | _ \<Rightarrow> Inl unsupported))"
| "eval_elems [] = Inr []"
| "eval_elems (e # es) =
     (case eval_expr e of
        Inl err \<Rightarrow> Inl err
      | Inr v \<Rightarrow> (case eval_elems es of Inl err \<Rightarrow> Inl err | Inr vs \<Rightarrow> Inr (v # vs)))"
| "eval_items [] acc = Inr acc"
| "eval_items ((ke, ve) # kvs) acc =
     (case eval_expr ke of
        Inl err \<Rightarrow> Inl err
      | Inr kval \<Rightarrow>
          (case kval of
             PStr k \<Rightarrow>
               (case eval_expr ve of
                  Inl err \<Rightarrow> Inl err
                | Inr v \<Rightarrow> eval_items kvs (dict_set acc k v))
           | _ \<Rightarrow> Inl unsupported))"
  by pat_completeness auto
termination
  by (relation "measure (\<lambda>x. case x of
        Inl e \<Rightarrow> size e
      | Inr (Inl es) \<Rightarrow> size_list size es
      | Inr (Inr (kvs, acc)) \<Rightarrow> size_list (size_prod size size) kvs)") auto

text \<open>Lexing, parsing of the whole text, then evaluation.\<close>

definition literal_eval :: "string \<Rightarrow> error + pyval" where
  "literal_eval s =
     (case lex (Suc (length s)) s of
        None \<Rightarrow> Inl syntax_error
      | Some ts \<Rightarrow>
          (case parse_expr (Suc (length ts)) ts of
             None \<Rightarrow> Inl syntax_error
           | Some (e, rest) \<Rightarrow> if rest = [] then eval_expr e else Inl syntax_error))"

section \<open>Notions of the specification\<close>

text \<open>
  Visibility as the specification words it: the tag set is absent or empty, holds the
  wildcard tag \<^verbatim>\<open>all\<close>, or holds the role, tags being compared without regard to case.
\<close>

definition visible_to_spec :: "string \<Rightarrow> string list option \<Rightarrow> bool" where
  "visible_to_spec role tgs =
     (case tgs of
        None \<Rightarrow> True
      | Some ts \<Rightarrow>
          ts = [] \<or> (\<exists>t \<in> set ts. lower t = ''all'') \<or> (\<exists>t \<in> set ts. lower t = lower role))"

text \<open>The declared parameters of a query that the context does not hold.\<close>

definition absent_params :: "pyval pydict \<Rightarrow> pg_query \<Rightarrow> string list" where
  "absent_params ctx q = filter (\<lambda>k. map_of ctx k = None) (wanted q)"

text \<open>The parameters an exception names.\<close>

definition named_params :: "error \<Rightarrow> string list" where
  "named_params e = (case e of KeyError k \<Rightarrow> [k] | Exception cls msg \<Rightarrow> [])"

text \<open>
  A placeholder token is a string value \<^verbatim>\<open>:name\<close>; \<open>placeholders\<close> lists those found
  anywhere in a pipeline.
\<close>

definition is_name_start :: "char \<Rightarrow> bool" where
  "is_name_start c =
     (let n = (of_char c :: nat)
      in (65 \<le> n \<and> n \<le> 90) \<or> (97 \<le> n \<and> n \<le> 122) \<or> n = 95)"

definition is_placeholder :: "string \<Rightarrow> bool" where
  "is_placeholder s =
     (case s of
        [] \<Rightarrow> False
      | c # name \<Rightarrow> c = CHR '':'' \<and> name \<noteq> [] \<and> is_name_start (hd name))"

fun placeholders :: "pyval \<Rightarrow> string list"
  and placeholders_elems :: "pyval list \<Rightarrow> string list"
  and placeholders_items :: "(string \<times> pyval) list \<Rightarrow> string list" where
  "placeholders (PStr s) = (if is_placeholder s then [s] else [])"
| "placeholders (PList xs) = placeholders_elems xs"
| "placeholders (PDict kvs) = placeholders_items kvs"
| "placeholders PNone = []"
| "placeholders (PBool b) = []"
| "placeholders (PInt i) = []"
| "placeholders (PDatetime d) = []"
| "placeholders_elems [] = []"
| "placeholders_elems (x # xs) = placeholders x @ placeholders_elems xs"
| "placeholders_items [] = []"
| "placeholders_items (kv # kvs) = placeholders (snd kv) @ placeholders_items kvs"


text \<open>A pipeline stage is a dictionary.\<close>

definition is_stage :: "pyval \<Rightarrow> bool" where
  "is_stage v = (case v of PDict kvs \<Rightarrow> True | _ \<Rightarrow> False)"

section \<open>Instances for concrete evaluation\<close>

text \<open>
  For concrete evaluation the library parameter of \<^verbatim>\<open>render_chart\<close> is instantiated with
  \<open>plotly_like\<close>: no column has dtype \<^verbatim>\<open>object\<close>, and every plotting call raises
  \<^verbatim>\<open>ValueError\<close>, as plotly does, when a field it is given is not the name of a column of
  the frame. A figure is represented by the name of its kind.
\<close>

definition column_named :: "dataframe \<Rightarrow> pyval \<Rightarrow> bool" where
  "column_named df v = (case v of PStr c \<Rightarrow> c \<in> set (df_columns df) | _ \<Rightarrow> False)"

definition checked_plot :: "string \<Rightarrow> dataframe \<Rightarrow> pyval list \<Rightarrow> error + string" where
  "checked_plot kind df fs =
     (case filter (\<lambda>v. \<not> column_named df v) fs of
        [] \<Rightarrow> Inr kind
      | v # _ \<Rightarrow> Inl (Exception ''ValueError'' (''not the name of a column: '' @ py_str v)))"

definition path_fields :: "pyval \<Rightarrow> pyval list" where
  "path_fields path = (case path of PList ps \<Rightarrow> ps | _ \<Rightarrow> [path])"

definition plotly_like :: "(string, dataframe) library" where
  "plotly_like =
     \<lparr>col_is_object = (\<lambda>df c. Inr False),
      col_to_datetime = (\<lambda>df c. Inr df),
      px_line = (\<lambda>df x y. checked_plot ''line'' df [x, y]),
      px_bar = (\<lambda>df x y. checked_plot ''bar'' df [x, y]),
      px_pie = (\<lambda>df names vals. checked_plot ''pie'' df [names, vals]),
      pivot_table = (\<lambda>df rows cols vals.
         and_then (checked_plot ''pivot'' df [rows, cols, vals]) (\<lambda>_. Inr df)),
      px_imshow = (\<lambda>pivot x y color. Inr ''heatmap''),
      px_treemap = (\<lambda>df path vals. checked_plot ''treemap'' df (path_fields path @ [vals]))\<rparr>"


text \<open>A result frame of one row, without the column \<^verbatim>\<open>avg_steps\<close>.\<close>

definition frame_activity :: dataframe where
  "frame_activity =
     \<lparr>df_columns = [''patient_name'', ''steps''],
      df_rows = [[(''patient_name'', PStr ''Li''), (''steps'', PInt 4200)]]\<rparr>"

text \<open>The context of the sidebar's initial values.\<close>

definition default_ctx :: "pyval pydict" where
  "default_ctx = PARAMS_CTX 1 1 1 1 5 7 20"

text \<open>A reading of the clock at which the catalog is built.\<close>

definition sample_ago :: "timedelta \<Rightarrow> datetime" where
  "sample_ago d =
     (case d of
        Hours h \<Rightarrow> Datetime 2025 3 9 8 30 15 250
      | Days n \<Rightarrow> Datetime 2025 3 (10 - int (min n 9)) 8 30 15 250)"

text \<open>
  An executor that answers with one document recording what it was handed: the
  collection and the placeholder tokens still present in the pipeline.
\<close>

definition echo_agg :: "string \<Rightarrow> string \<Rightarrow> pyval \<Rightarrow> error + pyval pydict list" where
  "echo_agg db_name coll pipeline =
     Inr [[(''collection'', PStr coll),
           (''placeholders'', PList (map PStr (placeholders pipeline)))]]"

text \<open>A one-stage pipeline with two placeholder tokens.\<close>

definition two_token_stages :: "pyval list" where
  "two_token_stages =
     [PDict [(''$match'',
        PDict [(''patient_id'', PStr '':patient_id''), (''sensor_id'', PStr '':sensor_id'')])]]"

section \<open>Properties of the Postgres panel\<close>

lemma and_then_Inr [simp]: "and_then (Inr x) f = f x"
  by (simp add: and_then_def)

lemma and_then_Inl [simp]: "and_then (Inl e) f = Inl e"
  by (simp add: and_then_def)

lemma map_of_dict_set: "map_of (dict_set d k v) = (map_of d)(k \<mapsto> v)"
  by (induction d k v rule: dict_set.induct) auto

lemma collect_params_present:
  "filter (\<lambda>k. map_of ctx k = None) ks = [] \<Longrightarrow>
   \<exists>binds. collect_params ctx ks acc = Inr binds \<and>
     map_of binds = (\<lambda>k. if k \<in> set ks then map_of ctx k else map_of acc k)"
proof (induction ks arbitrary: acc)
  case Nil
  then show ?case by simp
next
  case (Cons k ks)
  from Cons.prems obtain v where v: "map_of ctx k = Some v"
    by (cases "map_of ctx k") auto
  from Cons.prems have rest: "filter (\<lambda>k. map_of ctx k = None) ks = []"
    by (simp split: if_splits)
  from Cons.IH [OF rest, of "dict_set acc k v"] obtain binds where
    b: "collect_params ctx ks (dict_set acc k v) = Inr binds"
       "map_of binds = (\<lambda>x. if x \<in> set ks then map_of ctx x else map_of (dict_set acc k v) x)"
    by blast
  show ?case
    using v b by (auto simp: dict_index_def map_of_dict_set fun_eq_iff)
qed

lemma collect_params_absent:
  "filter (\<lambda>k. map_of ctx k = None) ks \<noteq> [] \<Longrightarrow>
   collect_params ctx ks acc = Inl (KeyError (hd (filter (\<lambda>k. map_of ctx k = None) ks)))"
proof (induction ks arbitrary: acc)
  case Nil
  then show ?case by simp
next
  case (Cons k ks)
  show ?case
  proof (cases "map_of ctx k")
    case None
    then show ?thesis by (simp add: dict_index_def)
  next
    case (Some v)
    with Cons.prems have "filter (\<lambda>k. map_of ctx k = None) ks \<noteq> []" by simp
    from Cons.IH [OF this] Some show ?thesis by (simp add: dict_index_def)
  qed
qed

lemma wanted_staff_high_risk: "wanted pg_staff_high_risk = [''staff_id'', ''alert_threshold'']"
  by (simp add: wanted_def pg_staff_high_risk_def)

lemma wanted_admin_battery: "wanted pg_admin_battery = []"
  by (simp add: wanted_def pg_admin_battery_def)

text \<open>
  Claim C1. For every relational query and every parameter context, binding either
  stops on a declared parameter that the context lacks, or produces a statement whose
  text is the catalog template after schema qualification, whatever the parameter values
  are; the values of the declared parameters form a separate mapping, and both are
  handed to the execution layer as they are. A value such as \<^verbatim>\<open>1; DROP TABLE x;--\<close>
  therefore never reaches the statement text.
\<close>

theorem pg_bind_statement_text:
  "case pg_bind schema ctx q of
     Inl e \<Rightarrow> absent_params ctx q \<noteq> []
   | Inr (stmt, binds) \<Rightarrow>
       stmt = qualify schema (sql q) \<and>
       map_of binds = map_of ctx |` set (wanted q) \<and>
       run_pg_query read_sql stmt (Some binds) = read_sql (qualify schema (sql q)) binds"
proof (cases "absent_params ctx q = []")
  case True
  then obtain binds where
    "collect_params ctx (wanted q) [] = Inr binds"
    "map_of binds = (\<lambda>k. if k \<in> set (wanted q) then map_of ctx k else map_of [] k)"
    using collect_params_present [of ctx "wanted q" "[]"] by (auto simp: absent_params_def)
  then show ?thesis
    by (auto simp: pg_bind_def run_pg_query_def restrict_map_def fun_eq_iff)
next
  case False
  then show ?thesis
    using collect_params_absent [of ctx "wanted q" "[]"]
    by (simp add: pg_bind_def absent_params_def)
qed

theorem pg_bind_statement_text_witness:
  "pg_bind ''public'' [(''patient_id'', PStr ''1; DROP TABLE x;--'')] pg_patient_battery
     = Inr (qualify ''public'' (sql pg_patient_battery),
            [(''patient_id'', PStr ''1; DROP TABLE x;--'')])"
  using pg_bind_statement_text [where schema = "''public''"
      and ctx = "[(''patient_id'', PStr ''1; DROP TABLE x;--'')]"
      and q = pg_patient_battery and read_sql = "\<lambda>s b. Inr ()"]
  by (simp add: pg_bind_def wanted_def pg_patient_battery_def dict_index_def)

text \<open>
  Claim C4, as the claim states it, fails. The query on high-risk patients declares
  \<^verbatim>\<open>staff_id\<close> and \<^verbatim>\<open>alert_threshold\<close>; with a context that holds neither, binding raises
  \<^verbatim>\<open>KeyError\<close> for \<^verbatim>\<open>staff_id\<close> alone.
\<close>

theorem pg_bind_names_one_of_two:
  "pg_bind ''public'' [(''patient_id'', PInt 1)] pg_staff_high_risk = Inl (KeyError ''staff_id'') \<and>
   absent_params [(''patient_id'', PInt 1)] pg_staff_high_risk = [''staff_id'', ''alert_threshold''] \<and>
   named_params (KeyError ''staff_id'') = [''staff_id'']"
  by (simp add: pg_bind_def absent_params_def wanted_staff_high_risk dict_index_def
      named_params_def)

text \<open>
  Claim C4, amended. If a declared parameter is absent from the context, binding fails
  with a \<^verbatim>\<open>KeyError\<close> that names the first absent parameter in declaration order; if the
  query declares no parameter, binding succeeds with the qualified statement and no bind
  variable.
\<close>

theorem pg_bind_first_absent:
  "(absent_params ctx q \<noteq> [] \<longrightarrow>
      pg_bind schema ctx q = Inl (KeyError (hd (absent_params ctx q)))) \<and>
   (wanted q = [] \<longrightarrow> pg_bind schema ctx q = Inr (qualify schema (sql q), []))"
  using collect_params_absent [of ctx "wanted q" "[]"]
  by (auto simp: pg_bind_def absent_params_def)

theorem pg_bind_first_absent_witness:
  "absent_params [(''staff_id'', PInt 2)] pg_staff_high_risk \<noteq> [] \<and>
   pg_bind ''public'' [(''staff_id'', PInt 2)] pg_staff_high_risk
     = Inl (KeyError ''alert_threshold'') \<and>
   wanted pg_admin_battery = [] \<and>
   pg_bind ''public'' [] pg_admin_battery = Inr (qualify ''public'' (sql pg_admin_battery), [])"
  using pg_bind_first_absent [where ctx = "[(''staff_id'', PInt 2)]" and q = pg_staff_high_risk
      and schema = "''public''"]
    pg_bind_first_absent [where ctx = "[]" and q = pg_admin_battery and schema = "''public''"]
  by (simp add: absent_params_def wanted_staff_high_risk wanted_admin_battery)

lemma lower_all: "lower ''all'' = ''all''"
  by (simp add: lower_def)

lemma lower_mem: "x \<in> set (map lower ts) \<longleftrightarrow> (\<exists>t \<in> set ts. lower t = x)"
  by auto

lemma ok_visible: "ok role tgs = visible_to_spec role tgs"
  by (cases tgs) (simp_all add: ok_def visible_to_spec_def lower_all lower_mem del: set_map)

section \<open>Properties of the role filter\<close>

lemma pg_tags:
  "tags pg_patient_overview = Some [''patient'']"
  "tags pg_patient_alerts = Some [''patient'']"
  "tags pg_patient_battery = Some [''patient'']"
  "tags pg_caregiver_alerts = Some [''caregiver'']"
  "tags pg_caregiver_activity = Some [''caregiver'']"
  "tags pg_caregiver_today = Some [''caregiver'']"
  "tags pg_staff_abnormal = Some [''medical_staff'']"
  "tags pg_staff_thresholds = Some [''medical_staff'']"
  "tags pg_staff_high_risk = Some [''medical_staff'']"
  "tags pg_admin_devices = Some [''admin'']"
  "tags pg_admin_battery = Some [''admin'']"
  "tags pg_admin_alert_types = Some [''admin'']"
  "tags pg_admin_patients = Some [''admin'']"
  "tags pg_admin_workload = Some [''admin'']"
  by (simp_all add: pg_patient_overview_def pg_patient_alerts_def pg_patient_battery_def
      pg_caregiver_alerts_def pg_caregiver_activity_def pg_caregiver_today_def
      pg_staff_abnormal_def pg_staff_thresholds_def pg_staff_high_risk_def
      pg_admin_devices_def pg_admin_battery_def pg_admin_alert_types_def
      pg_admin_patients_def pg_admin_workload_def)

text \<open>
  Claim C5. For every role and every catalog, \<^verbatim>\<open>filter_queries_by_role\<close> returns exactly
  the entries whose tag list is absent or empty, holds the wildcard tag, or holds the
  role, tags being compared without regard to case; the entries keep the catalog's
  order, and when no entry qualifies the result is the empty collection. The function
  has no failing branch.
\<close>

theorem filter_queries_by_role_visible:
  "filter_queries_by_role qdict role
     = filter (\<lambda>(name, q). visible_to_spec role (tags q)) qdict \<and>
   subseq (filter_queries_by_role qdict role) qdict \<and>
   ((\<forall>(name, q) \<in> set qdict. \<not> visible_to_spec role (tags q)) \<longrightarrow>
      filter_queries_by_role qdict role = [])"
  by (auto simp: filter_queries_by_role_def ok_visible filter_empty_conv)

theorem filter_queries_by_role_visible_witness:
  "list_all (\<lambda>(name, q). \<not> visible_to_spec ''nurse'' (tags q)) pg_queries \<and>
   filter_queries_by_role pg_queries ''nurse'' = [] \<and>
   map snd (filter_queries_by_role pg_queries ''Admin'')
     = [pg_admin_devices, pg_admin_battery, pg_admin_alert_types, pg_admin_patients,
        pg_admin_workload]"
  using filter_queries_by_role_visible [of pg_queries "''nurse''"]
    filter_queries_by_role_visible [of pg_queries "''Admin''"]
  by (simp add: pg_queries_def pg_tags visible_to_spec_def lower_def)

section \<open>Properties of the renderer\<close>

text \<open>
  Claim C7. For every chart spec, whatever its kind and whatever fields it has or lacks,
  rendering an empty result shows the no-data indicator and raises nothing.
\<close>

theorem render_chart_empty:
  "df_empty df \<Longrightarrow> render_chart L df spec = Inr (StInfo ''No rows.'')"
  by (simp add: render_chart_def)

theorem render_chart_empty_witness:
  "df_empty \<lparr>df_columns = [''a''], df_rows = []\<rparr> \<and>
   render_chart plotly_like \<lparr>df_columns = [''a''], df_rows = []\<rparr> [(''type'', PStr ''heatmap'')]
     = Inr (StInfo ''No rows.'')"
  using render_chart_empty [of "\<lparr>df_columns = [''a''], df_rows = []\<rparr>" plotly_like
      "[(''type'', PStr ''heatmap'')]"]
  by (simp add: df_empty_def)

text \<open>
  Claim C6, as the claim states it, fails. The bar chart of the caregiver activity query
  names the column \<^verbatim>\<open>avg_steps\<close>; on a frame without that column the renderer shows no
  error of its own: the plotting call is made and its \<^verbatim>\<open>ValueError\<close> leaves
  \<^verbatim>\<open>render_chart\<close>.
\<close>

theorem render_chart_raises_on_missing_column:
  "\<not> df_empty frame_activity \<and>
   PStr ''avg_steps'' \<in> snd ` set (chart pg_caregiver_activity) \<and>
   ''avg_steps'' \<notin> set (df_columns frame_activity) \<and>
   render_chart plotly_like frame_activity (chart pg_caregiver_activity)
     = Inl (Exception ''ValueError'' ''not the name of a column: avg_steps'')"
  by (simp add: render_chart_def df_empty_def frame_activity_def pg_caregiver_activity_def
      chart_type_def dict_index_def plotly_like_def checked_plot_def column_named_def
      show_chart_def py_str_def)

text \<open>
  Claim C6, amended. For a non-empty result the renderer does not validate the
  field-role names: for the kinds line, bar, pie, heatmap and treemap it hands the
  fields of the spec to the plotting library as they are, and the figure or the
  exception of the library is the outcome. An exception that leaves \<^verbatim>\<open>render_chart\<close> is
  reported by the handler of the panel as an error message.
\<close>

theorem render_chart_passes_fields_unchecked:
  assumes "\<not> df_empty df"
    and "parse_object_columns L (df_columns df) df = Inr df'"
  shows
    "(chart_type spec = PStr ''line'' \<and> map_of spec ''x'' = Some x \<and> map_of spec ''y'' = Some y
        \<longrightarrow> render_chart L df spec = show_chart (px_line L df' x y)) \<and>
     (chart_type spec = PStr ''bar'' \<and> map_of spec ''x'' = Some x \<and> map_of spec ''y'' = Some y
        \<longrightarrow> render_chart L df spec = show_chart (px_bar L df' x y)) \<and>
     (chart_type spec = PStr ''pie'' \<and> map_of spec ''names'' = Some x
        \<and> map_of spec ''values'' = Some y
        \<longrightarrow> render_chart L df spec = show_chart (px_pie L df' x y)) \<and>
     (chart_type spec = PStr ''heatmap'' \<and> map_of spec ''rows'' = Some x
        \<and> map_of spec ''cols'' = Some y \<and> map_of spec ''values'' = Some z
        \<longrightarrow> render_chart L df spec
              = and_then (pivot_table L df' x y z) (\<lambda>pivot. show_chart (px_imshow L pivot y x z))) \<and>
     (chart_type spec = PStr ''treemap'' \<and> map_of spec ''path'' = Some x
        \<and> map_of spec ''values'' = Some y
        \<longrightarrow> render_chart L df spec = show_chart (px_treemap L df' x y)) \<and>
     (\<forall>e. render_chart L df spec = Inl e
        \<longrightarrow> panel label (render_chart L df spec) = StError (label @ '' error: '' @ exc_str e))"
  using assms by (simp add: render_chart_def dict_index_def panel_def)

theorem render_chart_passes_fields_unchecked_witness:
  "\<not> df_empty frame_activity \<and>
   parse_object_columns plotly_like (df_columns frame_activity) frame_activity
     = Inr frame_activity \<and>
   render_chart plotly_like frame_activity
       [(''type'', PStr ''pie''), (''names'', PStr ''patient_name''), (''values'', PStr ''count'')]
     = show_chart (px_pie plotly_like frame_activity (PStr ''patient_name'') (PStr ''count'')) \<and>
   panel ''Postgres''
       (render_chart plotly_like frame_activity
          [(''type'', PStr ''pie''), (''names'', PStr ''patient_name''), (''values'', PStr ''count'')])
     = StError ''Postgres error: not the name of a column: count''"
proof -
  have ne: "\<not> df_empty frame_activity"
    by (simp add: df_empty_def frame_activity_def)
  have po: "parse_object_columns plotly_like (df_columns frame_activity) frame_activity
      = Inr frame_activity"
    by (simp add: frame_activity_def plotly_like_def)
  have raised: "px_pie plotly_like frame_activity (PStr ''patient_name'') (PStr ''count'')
      = Inl (Exception ''ValueError'' ''not the name of a column: count'')"
    by (simp add: frame_activity_def plotly_like_def checked_plot_def column_named_def py_str_def)
  show ?thesis
    using ne po raised
      render_chart_passes_fields_unchecked [OF ne po,
        where spec = "[(''type'', PStr ''pie''), (''names'', PStr ''patient_name''),
                       (''values'', PStr ''count'')]"
          and x = "PStr ''patient_name''" and y = "PStr ''count''" and label = "''Postgres''"]
    by (simp add: chart_type_def show_chart_def exc_str_def)
qed

section \<open>Properties of the Mongo panel\<close>

lemma substitute_text_only:
  "map (\<lambda>(k, v). (k, py_str v)) items = map (\<lambda>(k, v). (k, py_str v)) items' \<Longrightarrow>
   substitute s items = substitute s items'"
proof (induction items arbitrary: s items')
  case Nil
  then show ?case by simp
next
  case (Cons kv items)
  obtain k v where kv: "kv = (k, v)" by (cases kv)
  from Cons.prems kv obtain k' v' rest where
    items': "items' = (k', v') # rest" and same: "k' = k" "py_str v' = py_str v"
    and tail: "map (\<lambda>(k, v). (k, py_str v)) items = map (\<lambda>(k, v). (k, py_str v)) rest"
    by (cases items') auto
  show ?case
    using Cons.IH [OF tail] by (simp add: kv items' same)
qed

lemma str_replace_absent:
  "old \<noteq> [] \<Longrightarrow> \<not> sublist old s \<Longrightarrow> str_replace s old new = s"
proof (induction s old new rule: str_replace.induct)
  case (1 s old new)
  show ?case
  proof (cases s)
    case Nil
    with "1.prems" show ?thesis by (simp add: str_replace.simps)
  next
    case (Cons c cs)
    from "1.prems" have np: "\<not> prefix old s"
      using prefix_imp_sublist by blast
    from "1.prems" Cons have "\<not> sublist old (tl s)"
      by (auto simp: sublist_Cons_right)
    with "1.IH"(2) "1.prems" np Cons have "str_replace (tl s) old new = tl s"
      by simp
    with np "1.prems" Cons show ?thesis
      by (subst str_replace.simps) simp
  qed
qed

lemma substitute_absent:
  "list_all (\<lambda>(k, v). \<not> sublist (CHR '':'' # k) s) items \<Longrightarrow> substitute s items = s"
  by (induction items) (auto simp: str_replace_absent)

lemma detect_params_none:
  "list_all (\<lambda>name. PStr name \<notin> set stages) names \<Longrightarrow>
   detect_params stages ctx names acc = Inr acc"
  by (induction names arbitrary: acc) auto

lemma stage_not_name: "list_all is_stage stages \<Longrightarrow> PStr name \<notin> set stages"
  by (auto simp: list_all_iff is_stage_def)

lemma catalog_stages:
  "list_all (\<lambda>(name, q). list_all is_stage (aggregate q)) (mongo_queries ago)"
  by (simp add: mongo_queries_def is_stage_def mongo_heart_rate_trend_def mongo_low_spo2_def
      mongo_blood_pressure_def mongo_latest_device_status_def mongo_battery_distribution_def
      mongo_low_battery_def mongo_recent_alerts_def mongo_alert_severity_def
      mongo_alert_ranking_def mongo_audit_log_def mongo_audit_actions_def mongo_audit_trend_def)

lemma run_block_undetected:
  assumes "list_all is_stage (aggregate q)"
  shows "detect_params (aggregate q) ctx mongo_param_names [] = Inr []"
    and "mongo_run_block ev agg L db_name ctx q =
      and_then (agg db_name (collection q) (PList (aggregate q))) (\<lambda>docs.
        render_chart L
          (if docs \<noteq> [] then json_normalize docs else \<lparr>df_columns = [], df_rows = []\<rparr>)
          (chart q))"
proof -
  have "list_all (\<lambda>name. PStr name \<notin> set (aggregate q)) mongo_param_names"
    using stage_not_name [OF assms] by (simp add: list_all_iff)
  then show d: "detect_params (aggregate q) ctx mongo_param_names [] = Inr []"
    by (rule detect_params_none)
  show "mongo_run_block ev agg L db_name ctx q =
      and_then (agg db_name (collection q) (PList (aggregate q))) (\<lambda>docs.
        render_chart L
          (if docs \<noteq> [] then json_normalize docs else \<lparr>df_columns = [], df_rows = []\<rparr>)
          (chart q))"
    by (simp add: mongo_run_block_def d run_mongo_aggregate_def bind_stages_def and_then_def
        split: sum.splits)
qed

text \<open>
  Claim C2, as the claim states it, fails. Binding the integer \<^verbatim>\<open>patient_id = 7\<close> into a
  stage whose value is the token \<^verbatim>\<open>:patient_id\<close> goes through the text of the pipeline,
  where the token stands between quotes: the text becomes
  \<^verbatim>\<open>[{'$match': {'patient_id': '7'}}]\<close> and its evaluation holds the string \<^verbatim>\<open>'7'\<close>.
\<close>

theorem bind_stages_int_becomes_string:
  "substitute (py_repr (PList [PDict [(''$match'', PDict [(''patient_id'', PStr '':patient_id'')])]]))
       [(''patient_id'', PInt 7)]
     = ''[{'$match': {'patient_id': '7'}}]'' \<and>
   bind_stages literal_eval [PDict [(''$match'', PDict [(''patient_id'', PStr '':patient_id'')])]]
       (Some [(''patient_id'', PInt 7)])
     = Inr (PList [PDict [(''$match'', PDict [(''patient_id'', PStr ''7'')])]])"
  by code_simp

text \<open>
  Claim C2, amended. For every document pipeline, binding with an absent or empty
  parameter mapping leaves the pipeline as it is; with a non-empty mapping the pipeline
  is the evaluation of its own text after each \<^verbatim>\<open>":" + key\<close> has been replaced by
  \<^verbatim>\<open>str(value)\<close>, key by key. The bound pipeline thus depends on a value only through
  its text, and a text that holds none of the tokens is evaluated unchanged.
\<close>

theorem bind_stages_textual:
  "(ps = None \<or> ps = Some [] \<longrightarrow> bind_stages ev stages ps = Inr (PList stages)) \<and>
   (items \<noteq> [] \<longrightarrow>
      bind_stages ev stages (Some items) = ev (substitute (py_repr (PList stages)) items)) \<and>
   (map (\<lambda>(k, v). (k, py_str v)) items = map (\<lambda>(k, v). (k, py_str v)) items' \<longrightarrow>
      bind_stages ev stages (Some items) = bind_stages ev stages (Some items')) \<and>
   (items \<noteq> [] \<and> list_all (\<lambda>(k, v). \<not> sublist (CHR '':'' # k) (py_repr (PList stages))) items \<longrightarrow>
      bind_stages ev stages (Some items) = ev (py_repr (PList stages)))"
proof (intro conjI impI)
  assume "ps = None \<or> ps = Some []"
  then show "bind_stages ev stages ps = Inr (PList stages)"
    by (auto simp: bind_stages_def)
next
  assume "items \<noteq> []"
  then show "bind_stages ev stages (Some items) = ev (substitute (py_repr (PList stages)) items)"
    by (simp add: bind_stages_def)
next
  assume eq: "map (\<lambda>(k, v). (k, py_str v)) items = map (\<lambda>(k, v). (k, py_str v)) items'"
  have "length items = length items'"
    using arg_cong [OF eq, of length] by simp
  then have "(items = []) = (items' = [])"
    by (cases items; cases items') auto
  then show "bind_stages ev stages (Some items) = bind_stages ev stages (Some items')"
    using substitute_text_only [OF eq] by (simp add: bind_stages_def)
next
  assume "items \<noteq> [] \<and>
    list_all (\<lambda>(k, v). \<not> sublist (CHR '':'' # k) (py_repr (PList stages))) items"
  then show "bind_stages ev stages (Some items) = ev (py_repr (PList stages))"
    by (simp add: bind_stages_def substitute_absent)
qed

theorem bind_stages_textual_witness:
  "bind_stages literal_eval two_token_stages (Some [(''patient_id'', PInt 7)])
     = literal_eval ''[{'$match': {'patient_id': '7', 'sensor_id': ':sensor_id'}}]'' \<and>
   bind_stages literal_eval two_token_stages (Some [(''patient_id'', PInt 7)])
     = bind_stages literal_eval two_token_stages (Some [(''patient_id'', PStr ''7'')]) \<and>
   bind_stages literal_eval two_token_stages (Some []) = Inr (PList two_token_stages)"
proof -
  note inst = bind_stages_textual [where ev = literal_eval and stages = two_token_stages
      and items = "[(''patient_id'', PInt 7)]" and items' = "[(''patient_id'', PStr ''7'')]"
      and ps = "Some []"]
  have replaced: "substitute (py_repr (PList two_token_stages)) [(''patient_id'', PInt 7)]
      = ''[{'$match': {'patient_id': '7', 'sensor_id': ':sensor_id'}}]''"
    by code_simp
  have "py_str (PInt 7) = py_str (PStr ''7'')"
    by code_simp
  then have same_text:
    "map (\<lambda>(k, v). (k, py_str v)) [(''patient_id'', PInt 7)]
       = map (\<lambda>(k, v). (k, py_str v)) [(''patient_id'', PStr ''7'')]"
    by simp
  have nonempty: "[(''patient_id'', PInt 7)] \<noteq> []"
    by simp
  from inst nonempty have
    "bind_stages literal_eval two_token_stages (Some [(''patient_id'', PInt 7)])
       = literal_eval (substitute (py_repr (PList two_token_stages)) [(''patient_id'', PInt 7)])"
    by blast
  then have a: "bind_stages literal_eval two_token_stages (Some [(''patient_id'', PInt 7)])
      = literal_eval ''[{'$match': {'patient_id': '7', 'sensor_id': ':sensor_id'}}]''"
    by (simp only: replaced)
  from inst same_text have b:
    "bind_stages literal_eval two_token_stages (Some [(''patient_id'', PInt 7)])
       = bind_stages literal_eval two_token_stages (Some [(''patient_id'', PStr ''7'')])"
    by blast
  from inst have c: "bind_stages literal_eval two_token_stages (Some []) = Inr (PList two_token_stages)"
    by blast
  from a b c show ?thesis by blast
qed


text \<open>
  Claim C3, as the claim states it, fails. A pipeline with the tokens \<^verbatim>\<open>:patient_id\<close>
  and \<^verbatim>\<open>:sensor_id\<close>, bound with a value for \<^verbatim>\<open>patient_id\<close> only, is run without any
  error: the executor is handed a pipeline in which \<^verbatim>\<open>:sensor_id\<close> remains.
\<close>

theorem unresolved_placeholder_reaches_executor:
  "placeholders (PList two_token_stages) = ['':patient_id'', '':sensor_id''] \<and>
   run_mongo_aggregate literal_eval echo_agg ''eldercare'' ''sensor_readings'' two_token_stages
       (Some [(''patient_id'', PInt 7)])
     = Inr \<lparr>df_columns = [''collection'', ''placeholders''],
            df_rows = [[(''collection'', PStr ''sensor_readings''),
                        (''placeholders'', PList [PStr '':sensor_id''])]]\<rparr>"
  by code_simp

text \<open>
  Claim C3, amended. \<^verbatim>\<open>run_mongo_aggregate\<close> makes no check for placeholder tokens and
  raises no binding error of its own: whatever pipeline the substitution step yields is
  handed to the executor, and with an absent or empty parameter mapping that is the
  pipeline of the catalog itself, placeholder tokens included. Every exception that
  leaves the function is one raised by \<^verbatim>\<open>eval\<close> or by the executor.
\<close>

theorem run_mongo_aggregate_no_placeholder_check:
  "(bind_stages ev stages ps = Inr pipeline \<longrightarrow>
      run_mongo_aggregate ev agg db_name coll stages ps =
        and_then (agg db_name coll pipeline) (\<lambda>docs.
          Inr (if docs \<noteq> [] then json_normalize docs else \<lparr>df_columns = [], df_rows = []\<rparr>))) \<and>
   (ps = None \<or> ps = Some [] \<longrightarrow>
      run_mongo_aggregate ev agg db_name coll stages ps =
        and_then (agg db_name coll (PList stages)) (\<lambda>docs.
          Inr (if docs \<noteq> [] then json_normalize docs else \<lparr>df_columns = [], df_rows = []\<rparr>))) \<and>
   (run_mongo_aggregate ev agg db_name coll stages ps = Inl e \<longrightarrow>
      (\<exists>stages_str. ev stages_str = Inl e) \<or> (\<exists>pipeline. agg db_name coll pipeline = Inl e))"
proof (intro conjI impI)
  assume "bind_stages ev stages ps = Inr pipeline"
  then show "run_mongo_aggregate ev agg db_name coll stages ps =
      and_then (agg db_name coll pipeline) (\<lambda>docs.
        Inr (if docs \<noteq> [] then json_normalize docs else \<lparr>df_columns = [], df_rows = []\<rparr>))"
    by (simp add: run_mongo_aggregate_def)
next
  assume "ps = None \<or> ps = Some []"
  then show "run_mongo_aggregate ev agg db_name coll stages ps =
      and_then (agg db_name coll (PList stages)) (\<lambda>docs.
        Inr (if docs \<noteq> [] then json_normalize docs else \<lparr>df_columns = [], df_rows = []\<rparr>))"
    by (auto simp: run_mongo_aggregate_def bind_stages_def)
next
  assume failed: "run_mongo_aggregate ev agg db_name coll stages ps = Inl e"
  show "(\<exists>stages_str. ev stages_str = Inl e) \<or> (\<exists>pipeline. agg db_name coll pipeline = Inl e)"
  proof (cases "bind_stages ev stages ps")
    case (Inl e')
    with failed have "e' = e"
      by (simp add: run_mongo_aggregate_def)
    with Inl have "\<exists>stages_str. ev stages_str = Inl e"
      by (auto simp: bind_stages_def split: option.splits if_splits)
    then show ?thesis ..
  next
    case (Inr pipeline)
    with failed have "agg db_name coll pipeline = Inl e"
      by (cases "agg db_name coll pipeline") (simp_all add: run_mongo_aggregate_def)
    then show ?thesis by blast
  qed
qed

theorem run_mongo_aggregate_no_placeholder_check_witness:
  "bind_stages literal_eval (aggregate (mongo_heart_rate_trend sample_ago)) (Some [])
     = Inr (PList (aggregate (mongo_heart_rate_trend sample_ago))) \<and>
   run_mongo_aggregate literal_eval echo_agg ''eldercare'' ''sensor_readings''
       (aggregate (mongo_heart_rate_trend sample_ago)) (Some [])
     = Inr \<lparr>df_columns = [''collection'', ''placeholders''],
            df_rows = [[(''collection'', PStr ''sensor_readings''),
                        (''placeholders'', PList [PStr '':patient_id''])]]\<rparr>"
proof -
  have b: "bind_stages literal_eval (aggregate (mongo_heart_rate_trend sample_ago)) (Some [])
      = Inr (PList (aggregate (mongo_heart_rate_trend sample_ago)))"
    by (simp add: bind_stages_def)
  have e: "and_then
        (echo_agg ''eldercare'' ''sensor_readings''
           (PList (aggregate (mongo_heart_rate_trend sample_ago))))
        (\<lambda>docs. Inr (if docs \<noteq> [] then json_normalize docs
                      else \<lparr>df_columns = [], df_rows = []\<rparr>))
      = Inr \<lparr>df_columns = [''collection'', ''placeholders''],
             df_rows = [[(''collection'', PStr ''sensor_readings''),
                         (''placeholders'', PList [PStr '':patient_id''])]]\<rparr>"
    by code_simp
  show ?thesis
    using b e
      run_mongo_aggregate_no_placeholder_check [where ev = literal_eval
        and stages = "aggregate (mongo_heart_rate_trend sample_ago)" and ps = "Some []"
        and pipeline = "PList (aggregate (mongo_heart_rate_trend sample_ago))"
        and agg = echo_agg and db_name = "''eldercare''" and coll = "''sensor_readings''"]
    by simp
qed

text \<open>
  Claim C10. For every document query of the catalog and every parameter context, each
  of the six parameter-detection tests compares a bare name with the stage dictionaries
  and is false; so no parameter is collected, \<^verbatim>\<open>run_mongo_aggregate\<close> receives an empty
  mapping, and the executor is handed the catalog pipeline as it stands, placeholder
  tokens included.
\<close>

theorem mongo_params_never_detected:
  "\<forall>(name, q) \<in> set (mongo_queries ago).
     list_all (\<lambda>k. PStr k \<notin> set (aggregate q)) mongo_param_names \<and>
     detect_params (aggregate q) ctx mongo_param_names [] = Inr [] \<and>
     mongo_run_block ev agg L db_name ctx q =
       and_then (agg db_name (collection q) (PList (aggregate q))) (\<lambda>docs.
         render_chart L
           (if docs \<noteq> [] then json_normalize docs else \<lparr>df_columns = [], df_rows = []\<rparr>)
           (chart q))"
proof -
  have "list_all (\<lambda>k. PStr k \<notin> set (aggregate q)) mongo_param_names \<and>
     detect_params (aggregate q) ctx mongo_param_names [] = Inr [] \<and>
     mongo_run_block ev agg L db_name ctx q =
       and_then (agg db_name (collection q) (PList (aggregate q))) (\<lambda>docs.
         render_chart L
           (if docs \<noteq> [] then json_normalize docs else \<lparr>df_columns = [], df_rows = []\<rparr>)
           (chart q))"
    if "(name, q) \<in> set (mongo_queries ago)" for name q
  proof -
    have st: "list_all is_stage (aggregate q)"
      using catalog_stages [of ago] that by (auto simp: list_all_iff)
    show ?thesis
      using run_block_undetected [OF st] stage_not_name [OF st] by (simp add: list_all_iff)
  qed
  then show ?thesis by blast
qed



theorem mongo_params_never_detected_witness:
  "placeholders (PList (aggregate (mongo_heart_rate_trend sample_ago))) = ['':patient_id''] \<and>
   detect_params (aggregate (mongo_heart_rate_trend sample_ago)) default_ctx mongo_param_names []
     = Inr [] \<and>
   mongo_run_block literal_eval (\<lambda>db_name coll pipeline. Inr []) plotly_like ''eldercare''
       default_ctx (mongo_heart_rate_trend sample_ago)
     = Inr (StInfo ''No rows.'')"
proof -
  have mem: "(utf8 [228, 188, 160, 230, 132, 159, 229, 153, 168, 58, 32, 230, 130, 163, 232, 128, 133, 229, 191, 131, 231, 142, 135, 232, 182, 139, 229, 138, 191, 32, 40, 232, 191, 135, 229, 142, 187, 50, 52, 229, 176, 143, 230, 151, 182, 41],
      mongo_heart_rate_trend sample_ago) \<in> set (mongo_queries sample_ago)"
    by (simp add: mongo_queries_def)
  have p: "placeholders (PList (aggregate (mongo_heart_rate_trend sample_ago))) = ['':patient_id'']"
    by code_simp
  have shown: "render_chart plotly_like \<lparr>df_columns = [], df_rows = []\<rparr>
      (chart (mongo_heart_rate_trend sample_ago)) = Inr (StInfo ''No rows.'')"
    by (simp add: render_chart_def df_empty_def)
  note inst = mongo_params_never_detected [where ago = sample_ago and ctx = default_ctx
      and ev = literal_eval and agg = "\<lambda>db_name coll pipeline. Inr []"
      and L = plotly_like and db_name = "''eldercare''"]
  from inst mem have
    "detect_params (aggregate (mongo_heart_rate_trend sample_ago)) default_ctx mongo_param_names []
       = Inr [] \<and>
     mongo_run_block literal_eval (\<lambda>db_name coll pipeline. Inr []) plotly_like ''eldercare''
         default_ctx (mongo_heart_rate_trend sample_ago)
       = and_then (Inr []) (\<lambda>docs.
           render_chart plotly_like
             (if docs \<noteq> [] then json_normalize docs else \<lparr>df_columns = [], df_rows = []\<rparr>)
             (chart (mongo_heart_rate_trend sample_ago)))"
    by blast
  with p shown show ?thesis
    by simp
qed

section \<open>Properties of the flattening\<close>

lemma set_union_fields: "set (union_fields acc cs) = set acc \<union> set cs"
  by (induction cs arbitrary: acc) auto

lemma distinct_union_fields: "distinct acc \<Longrightarrow> distinct (union_fields acc cs)"
  by (induction cs arbitrary: acc) auto

lemma set_foldl_union_fields:
  "set (foldl union_fields acc css) = set acc \<union> (\<Union>cs \<in> set css. set cs)"
  by (induction css arbitrary: acc) (auto simp: set_union_fields)

lemma distinct_foldl_union_fields:
  "distinct acc \<Longrightarrow> distinct (foldl union_fields acc css)"
  by (induction css arbitrary: acc) (auto simp: distinct_union_fields)

lemma set_observed_fields:
  "set (observed_fields docs) = (\<Union>d \<in> set docs. fst ` set (flatten_doc [] d))"
  by (simp add: observed_fields_def set_foldl_union_fields)

lemma distinct_observed_fields: "distinct (observed_fields docs)"
  by (simp add: observed_fields_def distinct_foldl_union_fields)

text \<open>
  Claim C8. For every sequence of documents that the execution of a pipeline returns,
  the columns of the resulting frame are exactly the fields observed in any of the
  (flattened) documents, each once, and the row of a document holds, for every column,
  the document's value of that field, or null when the document lacks it. For the
  documents \<^verbatim>\<open>{a:1}\<close> and \<^verbatim>\<open>{b:2}\<close> the columns are \<^verbatim>\<open>a\<close>, \<^verbatim>\<open>b\<close> and the rows are
  \<^verbatim>\<open>{a:1, b:null}\<close> and \<^verbatim>\<open>{a:null, b:2}\<close>.
\<close>

theorem run_mongo_aggregate_flattens:
  assumes "bind_stages ev stages ps = Inr pipeline"
    and "agg db_name coll pipeline = Inr docs"
  shows "\<exists>df. run_mongo_aggregate ev agg db_name coll stages ps = Inr df \<and>
     set (df_columns df) = (\<Union>d \<in> set docs. fst ` set (flatten_doc [] d)) \<and>
     distinct (df_columns df) \<and>
     df_rows df =
       map (\<lambda>d. map (\<lambda>c. (c, case map_of (flatten_doc [] d) c of None \<Rightarrow> PNone | Some v \<Rightarrow> v))
                    (df_columns df)) docs"
proof (cases "docs = []")
  case True
  with assms show ?thesis
    by (simp add: run_mongo_aggregate_def)
next
  case False
  with assms show ?thesis
    by (simp add: run_mongo_aggregate_def json_normalize_def Let_def set_observed_fields
        distinct_observed_fields cell_def)
qed

theorem run_mongo_aggregate_flattens_witness:
  "run_mongo_aggregate literal_eval
       (\<lambda>db_name coll pipeline. Inr [[(''a'', PInt 1)], [(''b'', PInt 2)]])
       ''eldercare'' ''alerts'' [] None
     = Inr \<lparr>df_columns = [''a'', ''b''],
            df_rows = [[(''a'', PInt 1), (''b'', PNone)], [(''a'', PNone), (''b'', PInt 2)]]\<rparr>"
proof -
  have b: "bind_stages literal_eval [] None = Inr (PList [])"
    by (simp add: bind_stages_def)
  have a: "(\<lambda>db_name coll pipeline. Inr [[(''a'', PInt 1)], [(''b'', PInt 2)]])
      ''eldercare'' ''alerts'' (PList []) = (Inr [[(''a'', PInt 1)], [(''b'', PInt 2)]] :: error + pyval pydict list)"
    by simp
  from run_mongo_aggregate_flattens [where ev = literal_eval and stages = "[]" and ps = None
      and pipeline = "PList []" and db_name = "''eldercare''" and coll = "''alerts''"
      and agg = "\<lambda>db_name coll pipeline. Inr [[(''a'', PInt 1)], [(''b'', PInt 2)]]"
      and docs = "[[(''a'', PInt 1)], [(''b'', PInt 2)]]", OF b a]
  obtain df where
    df: "run_mongo_aggregate literal_eval
       (\<lambda>db_name coll pipeline. Inr [[(''a'', PInt 1)], [(''b'', PInt 2)]])
       ''eldercare'' ''alerts'' [] None = Inr df"
    by blast
  have "run_mongo_aggregate literal_eval
       (\<lambda>db_name coll pipeline. Inr [[(''a'', PInt 1)], [(''b'', PInt 2)]])
       ''eldercare'' ''alerts'' [] None
     = Inr \<lparr>df_columns = [''a'', ''b''],
            df_rows = [[(''a'', PInt 1), (''b'', PNone)], [(''a'', PNone), (''b'', PInt 2)]]\<rparr>"
    by (simp add: run_mongo_aggregate_def bind_stages_def json_normalize_def observed_fields_def
        cell_def)
  with df show ?thesis by simp
qed

section \<open>Properties of the result cache\<close>

lemma get_or_compute_hit:
  "entries c key = Some e \<Longrightarrow> now < computed_at e + ttl \<Longrightarrow>
   get_or_compute key ttl compute_fn now c = (Inr (stored e), c)"
  by (simp add: get_or_compute_def)

lemma get_or_compute_miss:
  "entries c key = None \<or> (\<exists>e. entries c key = Some e \<and> computed_at e + ttl < now) \<Longrightarrow>
   get_or_compute key ttl compute_fn now c = recompute key compute_fn now c"
  by (auto simp: get_or_compute_def)

text \<open>
  Claim C9. For every cache key: a call that finds an entry younger than the TTL of 60
  seconds, its age measured from the time of computation, returns the stored result and
  runs nothing; a call that finds no entry, or one older than the TTL, computes afresh.
  Hence, after a fresh computation at time \<open>now\<close>, every call with the same key before
  \<open>now + 60\<close> returns the identical result with no further execution, one execution in
  all, and a call after \<open>now + 60\<close> computes again.
\<close>

theorem get_or_compute_ttl:
  "(entries c key = Some e \<and> now < computed_at e + cache_ttl \<longrightarrow>
      get_or_compute key cache_ttl compute_fn now c = (Inr (stored e), c)) \<and>
   ((entries c key = None \<or> (\<exists>e. entries c key = Some e \<and> computed_at e + cache_ttl < now)) \<longrightarrow>
      get_or_compute key cache_ttl compute_fn now c = recompute key compute_fn now c \<and>
      fst (get_or_compute key cache_ttl compute_fn now c) = compute_fn () \<and>
      executions (snd (get_or_compute key cache_ttl compute_fn now c)) = Suc (executions c)) \<and>
   ((entries c key = None \<or> (\<exists>e. entries c key = Some e \<and> computed_at e + cache_ttl < now)) \<and>
    compute_fn () = Inr v \<and> get_or_compute key cache_ttl compute_fn now c = (r1, c1) \<longrightarrow>
      r1 = Inr v \<and> executions c1 = Suc (executions c) \<and>
      (\<forall>later again. now \<le> later \<and> later < now + cache_ttl \<longrightarrow>
         get_or_compute key cache_ttl again later c1 = (Inr v, c1)) \<and>
      (\<forall>later again. now + cache_ttl < later \<longrightarrow>
         get_or_compute key cache_ttl again later c1 = recompute key again later c1 \<and>
         executions (snd (get_or_compute key cache_ttl again later c1)) = Suc (Suc (executions c))))"
proof (intro conjI impI)
  assume "entries c key = Some e \<and> now < computed_at e + cache_ttl"
  then show "get_or_compute key cache_ttl compute_fn now c = (Inr (stored e), c)"
    by (simp add: get_or_compute_hit)
next
  assume m: "entries c key = None \<or> (\<exists>e. entries c key = Some e \<and> computed_at e + cache_ttl < now)"
  show "get_or_compute key cache_ttl compute_fn now c = recompute key compute_fn now c"
    by (rule get_or_compute_miss [OF m])
  show "fst (get_or_compute key cache_ttl compute_fn now c) = compute_fn ()"
    by (simp add: get_or_compute_miss [OF m] recompute_def split: sum.splits)
  show "executions (snd (get_or_compute key cache_ttl compute_fn now c)) = Suc (executions c)"
    by (simp add: get_or_compute_miss [OF m] recompute_def split: sum.splits)
next
  assume a: "(entries c key = None \<or> (\<exists>e. entries c key = Some e \<and> computed_at e + cache_ttl < now)) \<and>
    compute_fn () = Inr v \<and> get_or_compute key cache_ttl compute_fn now c = (r1, c1)"
  then have m: "entries c key = None \<or> (\<exists>e. entries c key = Some e \<and> computed_at e + cache_ttl < now)"
    and v: "compute_fn () = Inr v" and r: "get_or_compute key cache_ttl compute_fn now c = (r1, c1)"
    by blast+
  from r v have r1: "r1 = Inr v"
    and c1: "c1 = c\<lparr>entries := (entries c)(key \<mapsto> \<lparr>stored = v, computed_at = now\<rparr>),
                    executions := Suc (executions c)\<rparr>"
    by (simp_all add: get_or_compute_miss [OF m] recompute_def)
  show "r1 = Inr v" by (rule r1)
  show "executions c1 = Suc (executions c)" by (simp add: c1)
  have e1: "entries c1 key = Some \<lparr>stored = v, computed_at = now\<rparr>"
    by (simp add: c1)
  show "\<forall>later again. now \<le> later \<and> later < now + cache_ttl \<longrightarrow>
      get_or_compute key cache_ttl again later c1 = (Inr v, c1)"
    using get_or_compute_hit [OF e1] by simp
  show "\<forall>later again. now + cache_ttl < later \<longrightarrow>
      get_or_compute key cache_ttl again later c1 = recompute key again later c1 \<and>
      executions (snd (get_or_compute key cache_ttl again later c1)) = Suc (Suc (executions c))"
  proof (intro allI impI)
    fix later again
    assume "now + cache_ttl < later"
    then have m': "entries c1 key = None \<or>
        (\<exists>e. entries c1 key = Some e \<and> computed_at e + cache_ttl < later)"
      by (simp add: e1)
    show "get_or_compute key cache_ttl again later c1 = recompute key again later c1 \<and>
      executions (snd (get_or_compute key cache_ttl again later c1)) = Suc (Suc (executions c))"
      unfolding get_or_compute_miss [OF m']
      by (simp add: recompute_def c1 split: sum.splits)
  qed
qed

theorem get_or_compute_ttl_witness:
  "cached_run_pg_query (\<lambda>stmt binds. Inr frame_activity) ''SELECT 1'' None 100
       \<lparr>entries = Map.empty, executions = 0\<rparr>
     = (Inr frame_activity,
        \<lparr>entries = [(''SELECT 1'', None) \<mapsto> \<lparr>stored = frame_activity, computed_at = 100\<rparr>],
         executions = 1\<rparr>) \<and>
   cached_run_pg_query (\<lambda>stmt binds. Inl (Exception ''OperationalError'' ''connection lost''))
       ''SELECT 1'' None 159
       \<lparr>entries = [(''SELECT 1'', None) \<mapsto> \<lparr>stored = frame_activity, computed_at = 100\<rparr>],
        executions = 1\<rparr>
     = (Inr frame_activity,
        \<lparr>entries = [(''SELECT 1'', None) \<mapsto> \<lparr>stored = frame_activity, computed_at = 100\<rparr>],
         executions = 1\<rparr>) \<and>
   executions (snd (cached_run_pg_query
       (\<lambda>stmt binds. Inl (Exception ''OperationalError'' ''connection lost''))
       ''SELECT 1'' None 161
       \<lparr>entries = [(''SELECT 1'', None) \<mapsto> \<lparr>stored = frame_activity, computed_at = 100\<rparr>],
        executions = 1\<rparr>)) = 2"
proof -
  let ?key = "(''SELECT 1'', None :: pyval pydict option)"
  let ?c0 = "\<lparr>entries = (Map.empty :: string \<times> pyval pydict option \<Rightarrow> dataframe cache_entry option),
             executions = 0\<rparr>"
  let ?c1 = "\<lparr>entries = [?key \<mapsto> \<lparr>stored = frame_activity, computed_at = 100\<rparr>],
             executions = 1\<rparr>"
  let ?up = "\<lambda>_ :: unit. run_pg_query (\<lambda>stmt binds. Inr frame_activity) ''SELECT 1'' None"
  let ?down = "\<lambda>_ :: unit. run_pg_query
      (\<lambda>stmt binds. Inl (Exception ''OperationalError'' ''connection lost'') :: error + dataframe)
      ''SELECT 1'' None"
  note inst = get_or_compute_ttl [where c = ?c0 and key = ?key and now = 100
      and compute_fn = ?up and v = frame_activity and ?r1.0 = "Inr frame_activity" and ?c1.0 = ?c1]
  have absent: "entries ?c0 ?key = None \<or>
      (\<exists>e. entries ?c0 ?key = Some e \<and> computed_at e + cache_ttl < 100)"
    by simp
  have computed: "?up () = Inr frame_activity"
    by (simp add: run_pg_query_def)
  have first: "get_or_compute ?key cache_ttl ?up 100 ?c0 = (Inr frame_activity, ?c1)"
    by (simp add: get_or_compute_def recompute_def run_pg_query_def)
  from inst absent computed first have
    within: "\<forall>later again. 100 \<le> later \<and> later < 100 + cache_ttl \<longrightarrow>
        get_or_compute ?key cache_ttl again later ?c1 = (Inr frame_activity, ?c1)"
    and after: "\<forall>later again. 100 + cache_ttl < later \<longrightarrow>
        get_or_compute ?key cache_ttl again later ?c1 = recompute ?key again later ?c1 \<and>
        executions (snd (get_or_compute ?key cache_ttl again later ?c1)) = Suc (Suc (executions ?c0))"
    by blast+
  have second: "get_or_compute ?key cache_ttl ?down 159 ?c1 = (Inr frame_activity, ?c1)"
    using within [rule_format, of 159 ?down] by (simp add: cache_ttl_def)
  have expired: "100 + cache_ttl < (161 :: nat)"
    by (simp add: cache_ttl_def)
  with after have
    "executions (snd (get_or_compute ?key cache_ttl ?down 161 ?c1)) = Suc (Suc (executions ?c0))"
    by blast
  then have third: "executions (snd (get_or_compute ?key cache_ttl ?down 161 ?c1)) = 2"
    by simp
  from first second third show ?thesis
    by (simp add: cached_run_pg_query_def)
qed

end
